theory Spec2Isabelle
  imports Complex_Main "HOL-Library.Sublist"
begin

section \<open>Python values handed over by the collaborators\<close>

text \<open>
  The bridge client, the trigger generator, the forge and the Firestore client live in
  another repository. Whatever they return is a JSON-like Python value. A dict is an
  association list read with \<open>map_of\<close>.
\<close>

datatype pyval =
    PNone
  | PBool bool
  | PInt int
  | PFloat real
  | PStr string
  | PList "pyval list"
  | PDict "(string \<times> pyval) list"

text \<open>An exception instance: its class name and the literal part of its message. Every
  handler of the server is \<open>except Exception\<close>, and the values of this type stand for
  instances of \<open>Exception\<close>; \<open>KeyboardInterrupt\<close> and \<open>SystemExit\<close> are outside the model.\<close>

datatype exn = Exn string string

datatype 'a outcome = Raises exn | Returns 'a

text \<open>Truth value testing, as \<open>if x\<close> and \<open>x and y\<close> do it.\<close>

fun truthy :: "pyval \<Rightarrow> bool" where
  "truthy PNone = False"
| "truthy (PBool b) = b"
| "truthy (PInt i) = (i \<noteq> 0)"
| "truthy (PFloat r) = (r \<noteq> 0)"
| "truthy (PStr s) = (s \<noteq> [])"
| "truthy (PList xs) = (xs \<noteq> [])"
| "truthy (PDict kvs) = (kvs \<noteq> [])"

fun is_prefix :: "string \<Rightarrow> string \<Rightarrow> bool" where
  "is_prefix [] hay = True"
| "is_prefix (c # cs) [] = False"
| "is_prefix (c # cs) (h # hs) = (c = h \<and> is_prefix cs hs)"

text \<open>\<open>needle in hay\<close> on two strings: substring search.\<close>

fun str_contains :: "string \<Rightarrow> string \<Rightarrow> bool" where
  "str_contains needle [] = (needle = [])"
| "str_contains needle (h # hs) = (is_prefix needle (h # hs) \<or> str_contains needle hs)"

text \<open>\<open>obj.get(key, default)\<close>: only a dict has the method.\<close>

fun py_get :: "pyval \<Rightarrow> string \<Rightarrow> pyval \<Rightarrow> exn + pyval" where
  "py_get (PDict kvs) k d = Inr (case map_of kvs k of None \<Rightarrow> d | Some v \<Rightarrow> v)"
| "py_get obj k d = Inl (Exn ''AttributeError'' ''object has no attribute get'')"

text \<open>\<open>key in obj\<close> for a string key.\<close>

fun py_in :: "string \<Rightarrow> pyval \<Rightarrow> exn + bool" where
  "py_in k (PDict kvs) = Inr (k \<in> set (map fst kvs))"
| "py_in k (PStr s) = Inr (str_contains k s)"
| "py_in k (PList xs) = Inr (PStr k \<in> set xs)"
| "py_in k obj = Inl (Exn ''TypeError'' ''argument is not iterable'')"

text \<open>\<open>obj[key]\<close> for a string key.\<close>

fun py_getitem :: "pyval \<Rightarrow> string \<Rightarrow> exn + pyval" where
  "py_getitem (PDict kvs) k =
     (case map_of kvs k of None \<Rightarrow> Inl (Exn ''KeyError'' k) | Some v \<Rightarrow> Inr v)"
| "py_getitem (PStr s) k = Inl (Exn ''TypeError'' ''string indices must be integers'')"
| "py_getitem (PList xs) k = Inl (Exn ''TypeError'' ''list indices must be integers or slices'')"
| "py_getitem obj k = Inl (Exn ''TypeError'' ''object is not subscriptable'')"

text \<open>\<open>list(obj.keys())\<close>.\<close>

fun py_keys :: "pyval \<Rightarrow> exn + string list" where
  "py_keys (PDict kvs) = Inr (remdups (map fst kvs))"
| "py_keys obj = Inl (Exn ''AttributeError'' ''object has no attribute keys'')"


section \<open>The server's data\<close>

text \<open>\<open>current_workflow\<close>: the nested dict \<open>{'workflow': {...}, 'source': ...}\<close>, flattened.
  The fallback dict has no \<open>firestore_url\<close> key.\<close>

record workflow =
  title :: pyval
  wf_id :: pyval
  score :: pyval
  guide_markdown :: pyval
  firestore_url :: "pyval option"
  source :: pyval

datatype status = Uploading | Completed

datatype entry = Entry (entry_message: string) (entry_status: status)

datatype step = Step (message: string) (duration: nat)

record upload_status_t =
  current_step :: string
  is_uploading :: bool
  steps :: "entry list"

record server =
  session_active :: bool
  session_start_time :: "nat option"
  session_id :: "string option"
  command_client :: bool
  upload_status :: upload_status_t
  current_workflow :: "workflow option"

text \<open>What one run meets outside the server: the result of every collaborator call, the
  clock and the fresh uuid.\<close>

record env =
  bridge_client_new :: "unit outcome"
  start_audio_recording :: "pyval outcome"
  stop_audio_recording :: "pyval outcome"
  is_bridge_running :: "bool outcome"
  datetime_now :: nat
  uuid4 :: string
  generate_trigger_json :: "pyval outcome"
  save_trigger_to_file :: "pyval outcome"
  process_session :: "pyval outcome"
  get_random_published_workflow :: "pyval outcome"


section \<open>Effects\<close>

datatype event =
    Session_error string
  | Session_started "string option"
  | Session_stopped "string option"
  | Upload_status_update upload_status_t
  | Workflow_ready workflow
  | Upload_complete bool

datatype level = Info | Warning | Error

datatype call =
    Bridge_client_new
  | Start_audio_recording
  | Stop_audio_recording
  | Is_bridge_running
  | Generate_trigger_json "string option" "nat option" nat
  | Save_trigger_to_file string
  | Process_session "string option"
  | Get_random_published_workflow string

text \<open>
  Everything a statement does that is visible outside its own frame, in program order:
  \<open>Emit\<close> is flask-socketio's \<open>emit\<close> inside a handler (to the requesting client),
  \<open>Broadcast\<close> is \<open>self.socketio.emit\<close>, \<open>Log\<close> keeps the literal part of the
  logged f-string, \<open>Thread_start\<close> is \<open>monitor_thread.start()\<close>, and the assignments to
  the three session fields are recorded with the value assigned.
\<close>

datatype effect =
    Emit event
  | Broadcast event
  | Log level string
  | Sleep nat
  | Call call
  | Thread_start
  | Set_session_active bool
  | Set_session_start_time "nat option"
  | Set_session_id "string option"

text \<open>A statement: it may raise, it changes the server, it leaves effects.\<close>

type_synonym 'a prog = "server \<Rightarrow> (exn + 'a) \<times> server \<times> effect list"

definition ret :: "'a \<Rightarrow> 'a prog" where
  "ret a s = (Inr a, s, [])"

definition raise :: "exn \<Rightarrow> 'a prog" where
  "raise e s = (Inl e, s, [])"

definition lift :: "exn + 'a \<Rightarrow> 'a prog" where
  "lift r s = (r, s, [])"

definition bnd :: "'a prog \<Rightarrow> ('a \<Rightarrow> 'b prog) \<Rightarrow> 'b prog" where
  "bnd m f s =
     (case m s of
        (Inl e, s1, es) \<Rightarrow> (Inl e, s1, es)
      | (Inr a, s1, es) \<Rightarrow> (case f a s1 of (r, s2, es2) \<Rightarrow> (r, s2, es @ es2)))"

definition block :: "unit prog list \<Rightarrow> unit prog" where
  "block ms = foldr (\<lambda>m k. bnd m (\<lambda>_. k)) ms (ret ())"

definition try_except :: "'a prog \<Rightarrow> (exn \<Rightarrow> 'a prog) \<Rightarrow> 'a prog" where
  "try_except body handler s =
     (case body s of
        (Inl e, s1, es) \<Rightarrow> (case handler e s1 of (r, s2, es2) \<Rightarrow> (r, s2, es @ es2))
      | (Inr a, s1, es) \<Rightarrow> (Inr a, s1, es))"

definition effect :: "effect \<Rightarrow> unit prog" where
  "effect x s = (Inr (), s, [x])"

definition modify :: "(server \<Rightarrow> server) \<Rightarrow> unit prog" where
  "modify f s = (Inr (), f s, [])"

definition reading :: "(server \<Rightarrow> 'a) \<Rightarrow> 'a prog" where
  "reading f s = (Inr (f s), s, [])"

definition call_ext :: "call \<Rightarrow> 'a outcome \<Rightarrow> 'a prog" where
  "call_ext c out s =
     (case out of Raises e \<Rightarrow> (Inl e, s, [Call c]) | Returns v \<Rightarrow> (Inr v, s, [Call c]))"

definition logger :: "level \<Rightarrow> string \<Rightarrow> unit prog" where
  "logger l msg = effect (Log l msg)"

definition result_of :: "(exn + 'a) \<times> server \<times> effect list \<Rightarrow> exn + 'a" where
  "result_of r = fst r"

definition state_of :: "(exn + 'a) \<times> server \<times> effect list \<Rightarrow> server" where
  "state_of r = fst (snd r)"

definition effects_of :: "(exn + 'a) \<times> server \<times> effect list \<Rightarrow> effect list" where
  "effects_of r = snd (snd r)"


section \<open>Step 10: retrieving the workflow\<close>

definition fallback_workflow :: workflow where
  "fallback_workflow =
     \<lparr> title = PStr ''Sample Workflow'',
       wf_id = PStr ''fallback-001'',
       score = PFloat (85 / 100),
       guide_markdown = PStr (''# Sample Workflow Guide'' @ [CHR 0x0A, CHR 0x0A]
         @ ''This is a fallback workflow when Firestore data is not available.''
         @ [CHR 0x0A, CHR 0x0A] @ ''## Steps'' @ [CHR 0x0A] @ ''1. Review the session data''
         @ [CHR 0x0A] @ ''2. Analyze patterns'' @ [CHR 0x0A] @ ''3. Generate insights''),
       firestore_url = None,
       source = PStr ''fallback'' \<rparr>"

text \<open>The body of the \<open>try\<close>. The dict literal is evaluated key by key before it is
  assigned, so a \<open>get\<close> that raises leaves \<open>current_workflow\<close> as it was.\<close>

definition retrieve_body :: "env \<Rightarrow> unit prog" where
  "retrieve_body env =
     bnd (call_ext (Get_random_published_workflow ''diligent4'')
            (get_random_published_workflow env)) (\<lambda>workflow_data.
     bnd (lift (if truthy workflow_data then py_in ''workflow_data'' workflow_data
                else Inr False)) (\<lambda>present.
     if present then
       bnd (lift (py_getitem workflow_data ''workflow_data'')) (\<lambda>workflow_info.
       bnd (lift (py_get workflow_info ''title'' (PStr ''Unknown Workflow''))) (\<lambda>t.
       bnd (lift (py_get workflow_data ''workflow_id'' (PStr ''unknown''))) (\<lambda>i.
       bnd (lift (py_get workflow_info ''productivity_score'' (PFloat 0))) (\<lambda>sc.
       bnd (lift (py_get workflow_info ''guide_markdown'' (PStr ''''))) (\<lambda>g.
       bnd (lift (py_get workflow_data ''firestore_url'' (PStr ''''))) (\<lambda>u.
       bnd (lift (py_get workflow_data ''source'' (PStr ''firestore''))) (\<lambda>src.
       block [
         modify (\<lambda>s. s\<lparr>current_workflow := Some
           \<lparr> title = t, wf_id = i, score = sc, guide_markdown = g,
             firestore_url = Some u, source = src \<rparr>\<rparr>),
         bnd (lift (py_get workflow_info ''title'' (PStr ''Unknown Workflow''))) (\<lambda>_.
           logger Info ''Retrieved workflow: ''),
         bnd (lift (py_get workflow_info ''guide_markdown'' PNone)) (\<lambda>_.
           logger Info ''Workflow has guide_markdown: '')
       ])))))))
     else
       bnd (lift (if truthy workflow_data then py_keys workflow_data else Inr [])) (\<lambda>_.
       block [
         logger Error ''Failed to retrieve workflow from Firestore. Data keys: '',
         modify (\<lambda>s. s\<lparr>current_workflow := Some fallback_workflow\<rparr>)
       ])))"

definition retrieve_workflow_from_firestore :: "env \<Rightarrow> string option \<Rightarrow> unit prog" where
  "retrieve_workflow_from_firestore env sid =
     try_except (retrieve_body env) (\<lambda>e. logger Error ''Error retrieving workflow: '')"

section \<open>Steps 6 and 7: the trigger and the forge\<close>

text \<open>\<open>str(session_id)\<close> inside an f-string: \<open>None\<close> prints as \<open>None\<close>.\<close>

definition str_of_id :: "string option \<Rightarrow> string" where
  "str_of_id sid = (case sid of None \<Rightarrow> ''None'' | Some i \<Rightarrow> i)"

definition execute_forge_trigger_generation :: "env \<Rightarrow> string option \<Rightarrow> nat option \<Rightarrow> unit prog" where
  "execute_forge_trigger_generation env sid session_start =
     try_except
       (bnd (call_ext (Generate_trigger_json sid session_start (datetime_now env))
               (generate_trigger_json env)) (\<lambda>trigger_json.
        bnd (call_ext (Save_trigger_to_file (''trigger_'' @ str_of_id sid @ ''.json''))
               (save_trigger_to_file env)) (\<lambda>_.
        logger Info ''Generated forge trigger for session '')))
       (\<lambda>e. logger Error ''Error generating forge trigger: '')"

definition execute_forge_processing :: "env \<Rightarrow> string option \<Rightarrow> unit prog" where
  "execute_forge_processing env sid =
     try_except
       (bnd (call_ext (Process_session sid) (process_session env)) (\<lambda>forge_response.
        bnd (logger Info ''Forge processing response: '') (\<lambda>_.
        bnd (lift (py_get forge_response ''status'' PNone)) (\<lambda>st.
        if st \<noteq> PStr ''completed'' then
          bnd (lift (py_get forge_response ''error'' (PStr ''Unknown error''))) (\<lambda>_.
          logger Error ''Forge processing failed: '')
        else ret ()))))
       (\<lambda>e. logger Error ''Error in forge processing: '')"


section \<open>The background pipeline\<close>

definition upload_steps :: "step list" where
  "upload_steps =
     [Step ''Uploading audio...'' 3,
      Step ''Uploading screenshots...'' 2,
      Step ''Uploading telemetry (mouse, keyboard, window changes)...'' 4,
      Step ''Verifying uploads...'' 2]"

definition forge_steps :: "step list" where
  "forge_steps =
     [Step ''Generating forge trigger JSON...'' 1,
      Step ''Triggering forge processing pipeline...'' 2,
      Step ''Processing workflow (stages A-F)...'' 5,
      Step ''Uploading results to Firestore...'' 2,
      Step ''Retrieving processed workflow...'' 1]"

definition set_upload_status :: "upload_status_t \<Rightarrow> unit prog" where
  "set_upload_status u = modify (\<lambda>s. s\<lparr>upload_status := u\<rparr>)"

definition emit_upload_status :: "unit prog" where
  "emit_upload_status = bnd (reading upload_status) (\<lambda>u. effect (Broadcast (Upload_status_update u)))"

text \<open>The first loop; \<open>completed_steps\<close> is the list it appends to.\<close>

fun upload_loop :: "step list \<Rightarrow> entry list \<Rightarrow> entry list prog" where
  "upload_loop [] completed_steps = ret completed_steps"
| "upload_loop (st # rest) completed_steps =
     bnd (block [
       set_upload_status
         \<lparr> current_step = message st, is_uploading = True,
           steps = completed_steps @ [Entry (message st) Uploading] \<rparr>,
       emit_upload_status,
       effect (Sleep (duration st))]) (\<lambda>_.
     upload_loop rest (completed_steps @ [Entry (message st) Completed]))"

text \<open>The second loop picks the action by searching the step's message.\<close>

definition forge_action :: "env \<Rightarrow> string option \<Rightarrow> nat option \<Rightarrow> step \<Rightarrow> unit prog" where
  "forge_action env sid session_start st =
     (if str_contains ''Generating forge trigger'' (message st) then
        execute_forge_trigger_generation env sid session_start
      else if str_contains ''Triggering forge processing'' (message st) then
        execute_forge_processing env sid
      else if str_contains ''Retrieving processed workflow'' (message st) then
        retrieve_workflow_from_firestore env sid
      else effect (Sleep (duration st)))"

fun forge_loop :: "env \<Rightarrow> string option \<Rightarrow> nat option \<Rightarrow> step list \<Rightarrow> entry list \<Rightarrow> entry list prog" where
  "forge_loop env sid session_start [] completed_steps = ret completed_steps"
| "forge_loop env sid session_start (st # rest) completed_steps =
     bnd (block [
       set_upload_status
         \<lparr> current_step = message st, is_uploading = True,
           steps = completed_steps @ [Entry (message st) Uploading] \<rparr>,
       emit_upload_status,
       forge_action env sid session_start st]) (\<lambda>_.
     forge_loop env sid session_start rest (completed_steps @ [Entry (message st) Completed]))"

definition monitor_uploads_and_forge :: "env \<Rightarrow> unit prog" where
  "monitor_uploads_and_forge env =
     bnd (reading session_start_time) (\<lambda>session_start.
     bnd (reading session_id) (\<lambda>sid.
     bnd (block [
       set_upload_status
         \<lparr> current_step = ''Starting data flush...'', is_uploading = True,
           steps = [Entry ''Starting data flush...'' Uploading] \<rparr>,
       emit_upload_status,
       effect (Sleep 1)]) (\<lambda>_.
     bnd (upload_loop upload_steps [Entry ''Starting data flush...'' Completed]) (\<lambda>completed_steps.
     bnd (forge_loop env sid session_start forge_steps
            (completed_steps @ [Entry ''All uploads completed successfully!'' Completed]))
       (\<lambda>completed_steps.
     block [
       set_upload_status
         \<lparr> current_step = ''Processing complete'', is_uploading = False,
           steps = completed_steps
             @ [Entry ''Workflow processing completed! Ready to view results.'' Completed] \<rparr>,
       emit_upload_status,
       bnd (reading current_workflow) (\<lambda>w.
         case w of None \<Rightarrow> ret () | Some ready \<Rightarrow> effect (Broadcast (Workflow_ready ready))),
       effect (Sleep 3),
       bnd (reading current_workflow) (\<lambda>w.
         effect (Broadcast (Upload_complete (w \<noteq> None))))
     ])))))"

text \<open>\<open>_start_upload_monitoring\<close> wraps the pipeline in a daemon thread and starts it.\<close>

definition start_upload_monitoring :: "unit prog" where
  "start_upload_monitoring = effect Thread_start"


section \<open>Starting and stopping a session\<close>

definition set_session_active :: "bool \<Rightarrow> unit prog" where
  "set_session_active b =
     block [modify (\<lambda>s. s\<lparr>session_active := b\<rparr>), effect (Set_session_active b)]"

definition set_session_start_time :: "nat option \<Rightarrow> unit prog" where
  "set_session_start_time t =
     block [modify (\<lambda>s. s\<lparr>session_start_time := t\<rparr>), effect (Set_session_start_time t)]"

definition set_session_id :: "string option \<Rightarrow> unit prog" where
  "set_session_id i =
     block [modify (\<lambda>s. s\<lparr>session_id := i\<rparr>), effect (Set_session_id i)]"

definition start_session :: "env \<Rightarrow> unit prog" where
  "start_session env =
     block [
       bnd (reading session_active) (\<lambda>active.
         if active then raise (Exn ''ValueError'' ''Session is already active'') else ret ()),
       logger Info ''Starting session via audio start command'',
       bnd (reading command_client) (\<lambda>client.
         if \<not> client then
           bnd (call_ext Bridge_client_new (bridge_client_new env)) (\<lambda>_.
           modify (\<lambda>s. s\<lparr>command_client := True\<rparr>))
         else ret ()),
       bnd (call_ext Start_audio_recording (start_audio_recording env)) (\<lambda>result.
       bnd (lift (py_get result ''success'' (PBool False))) (\<lambda>ok.
         if \<not> truthy ok then
           bnd (lift (py_get result ''error'' (PStr ''Unknown error''))) (\<lambda>_.
           raise (Exn ''RuntimeError'' ''Failed to start session: ''))
         else ret ())),
       set_session_active True,
       set_session_start_time (Some (datetime_now env)),
       set_session_id (Some (uuid4 env)),
       logger Info ''Session started successfully with ID: '']"

definition stop_session :: "env \<Rightarrow> unit prog" where
  "stop_session env =
     block [
       bnd (reading session_active) (\<lambda>active.
         if \<not> active then raise (Exn ''ValueError'' ''No active session to stop'') else ret ()),
       logger Info ''Stopping session via audio stop command'',
       bnd (reading command_client) (\<lambda>client.
         if client then
           bnd (call_ext Stop_audio_recording (stop_audio_recording env)) (\<lambda>result.
           bnd (lift (py_get result ''success'' (PBool False))) (\<lambda>ok.
             if \<not> truthy ok then
               bnd (lift (py_get result ''error'' (PStr ''Unknown error''))) (\<lambda>_.
               logger Warning ''Audio stop command failed: '')
             else ret ()))
         else ret ()),
       start_upload_monitoring,
       set_session_active False,
       set_session_start_time None,
       set_session_id None,
       logger Info ''Session stopped successfully'']"


section \<open>The Socket.IO handlers and the HTTP routes\<close>

text \<open>\<open>str(e)\<close>.\<close>

fun str_exn :: "exn \<Rightarrow> string" where
  "str_exn (Exn cls msg) = msg"

definition handle_start_session :: "env \<Rightarrow> unit prog" where
  "handle_start_session env =
     try_except
       (bnd (reading session_active) (\<lambda>active.
          if active then effect (Emit (Session_error ''Session is already active''))
          else block [
            start_session env,
            bnd (reading session_id) (\<lambda>sid. effect (Emit (Session_started sid)))]))
       (\<lambda>e. block [
          logger Error ''Error starting session: '',
          effect (Emit (Session_error (str_exn e)))])"

definition handle_stop_session :: "env \<Rightarrow> unit prog" where
  "handle_stop_session env =
     try_except
       (bnd (reading session_active) (\<lambda>active.
          if \<not> active then effect (Emit (Session_error ''No active session to stop''))
          else block [
            bnd (reading session_id) (\<lambda>sid. effect (Emit (Session_stopped sid))),
            stop_session env]))
       (\<lambda>e. block [
          logger Error ''Error stopping session: '',
          effect (Emit (Session_error (str_exn e)))])"

text \<open>The JSON bodies of the three routes, and the response with its status code.\<close>

datatype body =
    Success_body "string option" string
  | Failure_body string
  | Status_body bool "string option" bool bool

datatype response = Response (response_body: body) (status_code: nat)

definition api_start_session :: "env \<Rightarrow> response prog" where
  "api_start_session env =
     try_except
       (bnd (reading session_active) (\<lambda>active.
          if active then ret (Response (Failure_body ''Session is already active'') 400)
          else
            bnd (start_session env) (\<lambda>_.
            bnd (reading session_id) (\<lambda>sid.
            ret (Response (Success_body sid ''Session started successfully'') 200)))))
       (\<lambda>e.
          bnd (logger Error ''Error starting session: '') (\<lambda>_.
          ret (Response (Failure_body (str_exn e)) 500)))"

definition api_stop_session :: "env \<Rightarrow> response prog" where
  "api_stop_session env =
     try_except
       (bnd (reading session_active) (\<lambda>active.
          if \<not> active then ret (Response (Failure_body ''No active session to stop'') 400)
          else
            bnd (stop_session env) (\<lambda>_.
            bnd (reading session_id) (\<lambda>sid.
            ret (Response (Success_body sid ''Session stopped, processing workflow...'') 200)))))
       (\<lambda>e.
          bnd (logger Error ''Error stopping session: '') (\<lambda>_.
          ret (Response (Failure_body (str_exn e)) 500)))"

definition api_get_status :: "env \<Rightarrow> response prog" where
  "api_get_status env =
     try_except
       (bnd (reading command_client) (\<lambda>client.
        bnd (if client then call_ext Is_bridge_running (is_bridge_running env) else ret False)
          (\<lambda>bridge_status.
        bnd (reading id) (\<lambda>s.
        ret (Response (Status_body (session_active s) (session_id s) bridge_status
                         (current_workflow s \<noteq> None)) 200)))))
       (\<lambda>e. ret (Response (Failure_body (str_exn e)) 500))"


section \<open>A stop request together with the thread it starts\<close>

text \<open>
  The caller's statements after \<open>monitor_thread.start()\<close> and the statements of the
  thread run in either order: the observable histories are the interleavings of the two.
\<close>

definition cycle_schedules :: "effect list \<Rightarrow> effect list \<Rightarrow> effect list set" where
  "cycle_schedules caller monitor =
     (if Thread_start \<in> set caller then
        (let pre = takeWhile (\<lambda>e. e \<noteq> Thread_start) caller;
             post = drop (Suc (length pre)) caller
         in (\<lambda>zs. pre @ Thread_start # zs) ` shuffles post monitor)
      else {caller})"

text \<open>One whole cycle with the thread scheduled after the handlers have returned.\<close>

definition run_cycle :: "env \<Rightarrow> server \<Rightarrow> server" where
  "run_cycle env s =
     state_of (monitor_uploads_and_forge env
       (state_of (handle_stop_session env (state_of (handle_start_session env s)))))"


section \<open>Observations on a history\<close>

fun snapshot_of :: "effect \<Rightarrow> upload_status_t list" where
  "snapshot_of (Broadcast (Upload_status_update u)) = [u]"
| "snapshot_of e = []"

text \<open>The progress snapshots of a history, oldest first.\<close>

definition snapshots :: "effect list \<Rightarrow> upload_status_t list" where
  "snapshots es = concat (map snapshot_of es)"

definition completed_entries :: "upload_status_t \<Rightarrow> entry list" where
  "completed_entries u = filter (\<lambda>e. entry_status e = Completed) (steps u)"

definition completed_labels :: "upload_status_t \<Rightarrow> string list" where
  "completed_labels u = map entry_message (completed_entries u)"

text \<open>The ten steps: the flush announcement, the four uploads, the five forge steps.\<close>

definition plan_labels :: "string list" where
  "plan_labels = ''Starting data flush...'' # map message upload_steps @ map message forge_steps"

text \<open>The two entries that \<open>completed_steps\<close> receives outside the two loops.\<close>

definition summary_labels :: "string list" where
  "summary_labels =
     [''All uploads completed successfully!'',
      ''Workflow processing completed! Ready to view results.'']"

definition reported_labels :: "string list" where
  "reported_labels =
     ''Starting data flush...'' # map message upload_steps
       @ [''All uploads completed successfully!'']
       @ map message forge_steps
       @ [''Workflow processing completed! Ready to view results.'']"

fun is_stopped :: "effect \<Rightarrow> bool" where
  "is_stopped (Emit (Session_stopped sid)) = True"
| "is_stopped (Broadcast (Session_stopped sid)) = True"
| "is_stopped e = False"

fun is_progress :: "effect \<Rightarrow> bool" where
  "is_progress (Emit (Upload_status_update u)) = True"
| "is_progress (Broadcast (Upload_status_update u)) = True"
| "is_progress e = False"

fun is_session_write :: "effect \<Rightarrow> bool" where
  "is_session_write (Set_session_active b) = True"
| "is_session_write (Set_session_start_time t) = True"
| "is_session_write (Set_session_id i) = True"
| "is_session_write e = False"

text \<open>Logging, collaborator calls and sleeping: nothing an observer or the session sees.\<close>

fun quiet :: "effect \<Rightarrow> bool" where
  "quiet (Log l m) = True"
| "quiet (Call c) = True"
| "quiet (Sleep n) = True"
| "quiet e = False"

text \<open>\<open>a\<close> occurs in the history, and does so before the first \<open>b\<close>, which occurs too.\<close>

definition occurs_before :: "effect \<Rightarrow> effect \<Rightarrow> effect list \<Rightarrow> bool" where
  "occurs_before a b t = (a \<in> set (takeWhile (\<lambda>e. e \<noteq> b) t) \<and> b \<in> set t)"

definition emits :: "(effect \<Rightarrow> bool) \<Rightarrow> 'a prog \<Rightarrow> bool" where
  "emits P m = (\<forall>s. list_all P (effects_of (m s)))"

definition keeps :: "(server \<Rightarrow> 'b) \<Rightarrow> 'a prog \<Rightarrow> bool" where
  "keeps g m = (\<forall>s. g (state_of (m s)) = g s)"


section \<open>Concrete servers and collaborators\<close>

text \<open>The server as \<open>__init__\<close> leaves it.\<close>

definition server_init :: server where
  "server_init =
     \<lparr> session_active = False, session_start_time = None, session_id = None,
       command_client = False,
       upload_status =
         \<lparr> current_step = ''Waiting for session...'', is_uploading = False, steps = [] \<rparr>,
       current_workflow = None \<rparr>"

definition published_workflow :: pyval where
  "published_workflow =
     PDict [(''workflow_id'', PStr ''wf-42''),
            (''workflow_data'', PDict [(''title'', PStr ''Invoice entry''),
                                      (''productivity_score'', PFloat (1 / 2)),
                                      (''guide_markdown'', PStr ''# Invoice entry'')]),
            (''firestore_url'', PStr ''https://firestore.example/wf-42''),
            (''source'', PStr ''firestore'')]"

text \<open>Every collaborator answers well.\<close>

definition env_ok :: env where
  "env_ok =
     \<lparr> bridge_client_new = Returns (),
       start_audio_recording = Returns (PDict [(''success'', PBool True)]),
       stop_audio_recording = Returns (PDict [(''success'', PBool True)]),
       is_bridge_running = Returns True,
       datetime_now = 1000,
       uuid4 = ''0b0e7d0a-57c1-4b53-9c55-6a1c1f0d2e11'',
       generate_trigger_json = Returns (PDict [(''version'', PStr ''1.0'')]),
       save_trigger_to_file = Returns PNone,
       process_session = Returns (PDict [(''status'', PStr ''completed'')]),
       get_random_published_workflow = Returns published_workflow \<rparr>"

text \<open>The three collaborators of the pipeline raise.\<close>

definition env_failing :: env where
  "env_failing =
     env_ok \<lparr> generate_trigger_json := Raises (Exn ''OSError'' ''disk full''),
              process_session := Raises (Exn ''ConnectionError'' ''forge unreachable''),
              get_random_published_workflow := Raises (Exn ''TimeoutError'' ''firestore timed out'') \<rparr>"

text \<open>The forge reports a failed run and the store has no workflow.\<close>

definition env_absent :: env where
  "env_absent =
     env_ok \<lparr> process_session := Returns (PDict [(''status'', PStr ''failed'')]),
              get_random_published_workflow := Returns PNone \<rparr>"

definition server_active :: server where
  "server_active =
     server_init \<lparr> session_active := True, session_start_time := Some 1000,
                   session_id := Some ''0b0e7d0a-57c1-4b53-9c55-6a1c1f0d2e11'',
                   command_client := True \<rparr>"

definition published_result :: workflow where
  "published_result =
     \<lparr> title = PStr ''Invoice entry'', wf_id = PStr ''wf-42'', score = PFloat (1 / 2),
       guide_markdown = PStr ''# Invoice entry'',
       firestore_url = Some (PStr ''https://firestore.example/wf-42''),
       source = PStr ''firestore'' \<rparr>"


section \<open>What the three real actions leave behind\<close>

text \<open>None of the three reads the server, so their effects are those on \<open>server_init\<close>.\<close>

definition trigger_effects :: "env \<Rightarrow> string option \<Rightarrow> nat option \<Rightarrow> effect list" where
  "trigger_effects env sid st =
     effects_of (execute_forge_trigger_generation env sid st server_init)"

definition processing_effects :: "env \<Rightarrow> string option \<Rightarrow> effect list" where
  "processing_effects env sid = effects_of (execute_forge_processing env sid server_init)"

definition retrieve_effects :: "env \<Rightarrow> effect list" where
  "retrieve_effects env = effects_of (retrieve_workflow_from_firestore env None server_init)"

definition retrieved :: "env \<Rightarrow> workflow option \<Rightarrow> workflow option" where
  "retrieved env old =
     current_workflow (state_of (retrieve_workflow_from_firestore env None
       (server_init\<lparr>current_workflow := old\<rparr>)))"

text \<open>The snapshot sent while entry \<open>k\<close> of \<open>reported_labels\<close> runs.\<close>

definition running_status :: "nat \<Rightarrow> upload_status_t" where
  "running_status k =
     \<lparr> current_step = reported_labels ! k, is_uploading = True,
       steps = map (\<lambda>l. Entry l Completed) (take k reported_labels)
                 @ [Entry (reported_labels ! k) Uploading] \<rparr>"

definition step_running :: "nat \<Rightarrow> effect" where
  "step_running k = Broadcast (Upload_status_update (running_status k))"

definition final_status :: upload_status_t where
  "final_status =
     \<lparr> current_step = ''Processing complete'', is_uploading = False,
       steps = map (\<lambda>l. Entry l Completed) reported_labels \<rparr>"

definition monitor_effects ::
  "env \<Rightarrow> string option \<Rightarrow> nat option \<Rightarrow> workflow option \<Rightarrow> effect list" where
  "monitor_effects env sid st old =
     [step_running 0, Sleep 1, step_running 1, Sleep 3, step_running 2, Sleep 2,
      step_running 3, Sleep 4, step_running 4, Sleep 2, step_running 6]
     @ trigger_effects env sid st
     @ [step_running 7]
     @ processing_effects env sid
     @ [step_running 8, Sleep 5, step_running 9, Sleep 2, step_running 10]
     @ retrieve_effects env
     @ [Broadcast (Upload_status_update final_status)]
     @ (case retrieved env old of None \<Rightarrow> [] | Some w \<Rightarrow> [Broadcast (Workflow_ready w)])
     @ [Sleep 3, Broadcast (Upload_complete (retrieved env old \<noteq> None))]"

text \<open>What \<open>stop_session\<close> does once the recording agent has been told to stop.\<close>

definition stop_tail :: "effect list" where
  "stop_tail =
     [Thread_start, Set_session_active False, Set_session_start_time None,
      Set_session_id None, Log Info ''Session stopped successfully'']"

definition cleared :: "server \<Rightarrow> server" where
  "cleared s = s\<lparr>session_active := False, session_start_time := None, session_id := None\<rparr>"


section \<open>Laws of the statements\<close>

lemmas prog_defs = ret_def raise_def lift_def bnd_def block_def try_except_def effect_def
  modify_def reading_def call_ext_def logger_def result_of_def state_of_def effects_of_def

lemma block_Nil: "block [] = ret ()"
  by (simp add: block_def)

lemma block_Cons: "block (m # ms) = bnd m (\<lambda>_. block ms)"
  by (simp add: block_def)

lemma emitsD:
  assumes "emits P m" and "m s = (r, s1, es)"
  shows "list_all P es"
proof -
  from assms(1) have "list_all P (effects_of (m s))"
    unfolding emits_def by (rule spec)
  then show ?thesis using assms(2) by (simp add: effects_of_def)
qed

lemma emits_ret: "emits P (ret a)"
  and emits_raise: "emits P (raise e)"
  and emits_lift: "emits P (lift r)"
  and emits_modify: "emits P (modify g)"
  and emits_reading: "emits P (reading h)"
  by (simp_all add: emits_def prog_defs)

lemma emits_effect: "P x \<Longrightarrow> emits P (effect x)"
  by (simp add: emits_def prog_defs)

lemma emits_logger: "P (Log l x) \<Longrightarrow> emits P (logger l x)"
  by (simp add: emits_def prog_defs)

lemma emits_call: "P (Call c) \<Longrightarrow> emits P (call_ext c out)"
  by (simp add: emits_def prog_defs split: outcome.splits)

lemma emits_bnd:
  assumes "emits P m" and "\<And>a. emits P (f a)"
  shows "emits P (bnd m f)"
proof -
  have "list_all P (effects_of (bnd m f s))" for s
  proof (cases "m s")
    case (fields r s1 es)
    note q1 = emitsD [OF assms(1) fields]
    show ?thesis
    proof (cases r)
      case (Inl e)
      then show ?thesis using fields q1 by (simp add: prog_defs)
    next
      case (Inr a)
      obtain r2 s2 es2 where f: "f a s1 = (r2, s2, es2)" by (cases "f a s1") auto
      from emitsD [OF assms(2) f] show ?thesis using fields Inr f q1 by (simp add: prog_defs)
    qed
  qed
  then show ?thesis by (simp add: emits_def)
qed

lemma emits_try:
  assumes "emits P m" and "\<And>e. emits P (h e)"
  shows "emits P (try_except m h)"
proof -
  have "list_all P (effects_of (try_except m h s))" for s
  proof (cases "m s")
    case (fields r s1 es)
    note q1 = emitsD [OF assms(1) fields]
    show ?thesis
    proof (cases r)
      case (Inr a)
      then show ?thesis using fields q1 by (simp add: prog_defs)
    next
      case (Inl e)
      obtain r2 s2 es2 where f: "h e s1 = (r2, s2, es2)" by (cases "h e s1") auto
      from emitsD [OF assms(2) f] show ?thesis using fields Inl f q1 by (simp add: prog_defs)
    qed
  qed
  then show ?thesis by (simp add: emits_def)
qed

lemma emits_if: "emits P a \<Longrightarrow> emits P b \<Longrightarrow> emits P (if c then a else b)"
  by simp

lemma emits_block_Nil: "emits P (block [])"
  by (simp add: block_Nil emits_ret)

lemma emits_block_Cons: "emits P m \<Longrightarrow> emits P (block ms) \<Longrightarrow> emits P (block (m # ms))"
  by (simp add: block_Cons emits_bnd)

lemmas emits_intros = emits_ret emits_raise emits_lift emits_modify emits_reading emits_bnd
  emits_try emits_if emits_block_Nil emits_block_Cons

lemma snapshots_append: "snapshots (xs @ ys) = snapshots xs @ snapshots ys"
  by (simp add: snapshots_def)

lemma snapshots_quiet: "list_all quiet es \<Longrightarrow> snapshots es = []"
proof (induction es)
  case Nil
  show ?case by (simp add: snapshots_def)
next
  case (Cons e es)
  then show ?case by (cases e) (simp_all add: snapshots_def)
qed

lemma quiet_filter:
  assumes "list_all quiet es"
  shows "filter is_stopped es = []" and "filter is_progress es = []"
    and "filter is_session_write es = []" and "Thread_start \<notin> set es"
proof -
  have "\<not> is_stopped e \<and> \<not> is_progress e \<and> \<not> is_session_write e \<and> e \<noteq> Thread_start"
    if "quiet e" for e
    using that by (cases e) simp_all
  with assms show "filter is_stopped es = []" and "filter is_progress es = []"
    and "filter is_session_write es = []" and "Thread_start \<notin> set es"
    by (auto simp add: list_all_iff filter_empty_conv)
qed


section \<open>The three real actions\<close>

lemma quiet_trigger: "emits quiet (execute_forge_trigger_generation env sid st)"
  unfolding execute_forge_trigger_generation_def
  by (intro emits_intros emits_call emits_logger) simp_all

lemma quiet_processing: "emits quiet (execute_forge_processing env sid)"
  unfolding execute_forge_processing_def
  by (intro emits_intros emits_call emits_logger) simp_all

lemma quiet_retrieve: "emits quiet (retrieve_workflow_from_firestore env sid)"
  unfolding retrieve_workflow_from_firestore_def retrieve_body_def
  by (intro emits_intros emits_call emits_logger) simp_all

lemma quiet_effects:
  "list_all quiet (trigger_effects env sid st)"
  "list_all quiet (processing_effects env sid)"
  "list_all quiet (retrieve_effects env)"
  using quiet_trigger [of env sid st] quiet_processing [of env sid] quiet_retrieve [of env None]
  by (simp_all add: emits_def trigger_effects_def processing_effects_def retrieve_effects_def)

lemma trigger_run:
  "execute_forge_trigger_generation env sid st s = (Inr (), s, trigger_effects env sid st)"
  by (simp add: trigger_effects_def execute_forge_trigger_generation_def prog_defs
      split: outcome.splits)

lemma processing_run:
  "execute_forge_processing env sid s = (Inr (), s, processing_effects env sid)"
proof (cases "process_session env")
  case (Raises e)
  then show ?thesis
    by (simp add: processing_effects_def execute_forge_processing_def prog_defs)
next
  case (Returns v)
  then show ?thesis
    by (cases v) (simp_all add: processing_effects_def execute_forge_processing_def prog_defs)
qed

lemmas retrieve_defs = retrieved_def retrieve_effects_def retrieve_workflow_from_firestore_def
  retrieve_body_def

lemma retrieve_run:
  "retrieve_workflow_from_firestore env sid s =
     (Inr (), s\<lparr>current_workflow := retrieved env (current_workflow s)\<rparr>, retrieve_effects env)"
proof (cases "get_random_published_workflow env")
  case (Raises e)
  then show ?thesis by (simp add: retrieve_defs prog_defs)
next
  case (Returns v)
  show ?thesis
  proof (cases v)
    case (PDict kvs)
    show ?thesis
    proof (cases "map_of kvs ''workflow_data''")
      case None
      then have "''workflow_data'' \<notin> fst ` set kvs" by (simp add: map_of_eq_None_iff)
      then show ?thesis using Returns PDict by (simp add: retrieve_defs prog_defs)
    next
      case (Some info)
      have "kvs \<noteq> []" using Some by auto
      moreover have "''workflow_data'' \<in> fst ` set kvs"
        using Some by (metis map_of_eq_None_iff option.distinct(1))
      ultimately show ?thesis using Returns PDict Some
        by (cases info) (simp_all add: retrieve_defs prog_defs)
    qed
  qed (use Returns in \<open>simp_all add: retrieve_defs prog_defs\<close>)
qed

lemma retrieve_raises:
  assumes "get_random_published_workflow env = Raises e"
  shows "retrieve_workflow_from_firestore env sid s =
           (Inr (), s, [Call (Get_random_published_workflow ''diligent4''),
                        Log Error ''Error retrieving workflow: ''])"
  using assms by (simp add: retrieve_workflow_from_firestore_def retrieve_body_def prog_defs)

lemma retrieve_absent:
  assumes "get_random_published_workflow env = Returns v"
    and "\<not> truthy v \<or> (\<exists>kvs. v = PDict kvs \<and> map_of kvs ''workflow_data'' = None)"
  shows "retrieve_workflow_from_firestore env sid s =
           (Inr (), s\<lparr>current_workflow := Some fallback_workflow\<rparr>,
            [Call (Get_random_published_workflow ''diligent4''),
             Log Error ''Failed to retrieve workflow from Firestore. Data keys: ''])"
  using assms
  by (auto simp add: retrieve_workflow_from_firestore_def retrieve_body_def prog_defs
      map_of_eq_None_iff)

lemma retrieve_real:
  assumes "get_random_published_workflow env = Returns (PDict kvs)"
    and "map_of kvs ''workflow_data'' = Some (PDict info)"
  shows "retrieve_workflow_from_firestore env sid s =
           (Inr (), s\<lparr>current_workflow := Some
              \<lparr> title = (case map_of info ''title'' of
                           None \<Rightarrow> PStr ''Unknown Workflow'' | Some v \<Rightarrow> v),
                wf_id = (case map_of kvs ''workflow_id'' of
                           None \<Rightarrow> PStr ''unknown'' | Some v \<Rightarrow> v),
                score = (case map_of info ''productivity_score'' of
                           None \<Rightarrow> PFloat 0 | Some v \<Rightarrow> v),
                guide_markdown = (case map_of info ''guide_markdown'' of
                           None \<Rightarrow> PStr '''' | Some v \<Rightarrow> v),
                firestore_url = Some (case map_of kvs ''firestore_url'' of
                           None \<Rightarrow> PStr '''' | Some v \<Rightarrow> v),
                source = (case map_of kvs ''source'' of
                           None \<Rightarrow> PStr ''firestore'' | Some v \<Rightarrow> v) \<rparr>\<rparr>,
            [Call (Get_random_published_workflow ''diligent4''),
             Log Info ''Retrieved workflow: '', Log Info ''Workflow has guide_markdown: ''])"
proof -
  have "kvs \<noteq> []" using assms(2) by auto
  moreover have "''workflow_data'' \<in> fst ` set kvs"
    using assms(2) by (metis map_of_eq_None_iff option.distinct(1))
  ultimately show ?thesis using assms
    by (simp add: retrieve_workflow_from_firestore_def retrieve_body_def prog_defs)
qed


section \<open>The pipeline, statement by statement\<close>

lemma forge_action_steps:
  "forge_action env sid st (Step ''Generating forge trigger JSON...'' d) =
     execute_forge_trigger_generation env sid st"
  "forge_action env sid st (Step ''Triggering forge processing pipeline...'' d) =
     execute_forge_processing env sid"
  "forge_action env sid st (Step ''Processing workflow (stages A-F)...'' d) = effect (Sleep d)"
  "forge_action env sid st (Step ''Uploading results to Firestore...'' d) = effect (Sleep d)"
  "forge_action env sid st (Step ''Retrieving processed workflow...'' d) =
     retrieve_workflow_from_firestore env sid"
  by (simp_all add: forge_action_def)

lemmas loop_defs = upload_steps_def forge_steps_def reported_labels_def step_running_def
  running_status_def
  set_upload_status_def emit_upload_status_def
  ret_def bnd_def block_def effect_def modify_def reading_def

lemma upload_phase:
  "upload_loop upload_steps [Entry ''Starting data flush...'' Completed] s =
     (Inr (map (\<lambda>l. Entry l Completed) (take 5 reported_labels)),
      s\<lparr>upload_status := \<lparr> current_step = reported_labels ! 4, is_uploading = True,
           steps = map (\<lambda>l. Entry l Completed) (take 4 reported_labels)
                 @ [Entry (reported_labels ! 4) Uploading] \<rparr>\<rparr>,
      [step_running 1, Sleep 3, step_running 2, Sleep 2, step_running 3, Sleep 4,
       step_running 4, Sleep 2])"
  by (simp add: loop_defs)

lemma forge_phase:
  "forge_loop env sid st forge_steps (map (\<lambda>l. Entry l Completed) (take 6 reported_labels)) s =
     (Inr (map (\<lambda>l. Entry l Completed) (take 11 reported_labels)),
      s\<lparr>upload_status := \<lparr> current_step = reported_labels ! 10, is_uploading = True,
           steps = map (\<lambda>l. Entry l Completed) (take 10 reported_labels)
                 @ [Entry (reported_labels ! 10) Uploading] \<rparr>,
        current_workflow := retrieved env (current_workflow s)\<rparr>,
      [step_running 6] @ trigger_effects env sid st @ [step_running 7]
       @ processing_effects env sid
       @ [step_running 8, Sleep 5, step_running 9, Sleep 2, step_running 10]
       @ retrieve_effects env)"
  by (simp add: forge_action_steps trigger_run processing_run retrieve_run loop_defs)

lemma monitor_run:
  "monitor_uploads_and_forge env s =
     (Inr (),
      s\<lparr>upload_status := final_status, current_workflow := retrieved env (current_workflow s)\<rparr>,
      monitor_effects env (session_id s) (session_start_time s) (current_workflow s))"
proof -
  have six: "map (\<lambda>l. Entry l Completed) (take 5 reported_labels)
               @ [Entry ''All uploads completed successfully!'' Completed]
             = map (\<lambda>l. Entry l Completed) (take 6 reported_labels)"
    by (simp add: reported_labels_def upload_steps_def forge_steps_def)
  have fin: "map (\<lambda>l. Entry l Completed) (take 11 reported_labels)
               @ [Entry ''Workflow processing completed! Ready to view results.'' Completed]
             = map (\<lambda>l. Entry l Completed) reported_labels"
    by (simp add: reported_labels_def upload_steps_def forge_steps_def)
  have zero: "step_running 0 = Broadcast (Upload_status_update
       \<lparr> current_step = ''Starting data flush...'', is_uploading = True,
         steps = [Entry ''Starting data flush...'' Uploading] \<rparr>)"
    by (simp add: step_running_def running_status_def reported_labels_def)
  show ?thesis
    unfolding monitor_uploads_and_forge_def
    by (simp add: bnd_def upload_phase six forge_phase fin zero final_status_def
        monitor_effects_def set_upload_status_def emit_upload_status_def
        ret_def block_def effect_def modify_def reading_def split: option.splits)
qed

lemma retrieved_raises:
  "get_random_published_workflow env = Raises e \<Longrightarrow> retrieved env old = old"
  by (simp add: retrieved_def retrieve_raises state_of_def)

lemma last_monitor_effects:
  "last (monitor_effects env sid st old) = Broadcast (Upload_complete (retrieved env old \<noteq> None))"
  by (simp add: monitor_effects_def)

lemma server_init_simps:
  "session_active server_init = False"
  "session_start_time server_init = None"
  "session_id server_init = None"
  "command_client server_init = False"
  "current_workflow server_init = None"
  by (simp_all add: server_init_def)

lemma env_failing_simps:
  "generate_trigger_json env_failing = Raises (Exn ''OSError'' ''disk full'')"
  "process_session env_failing = Raises (Exn ''ConnectionError'' ''forge unreachable'')"
  "get_random_published_workflow env_failing = Raises (Exn ''TimeoutError'' ''firestore timed out'')"
  by (simp_all add: env_failing_def)

lemma env_absent_simps:
  "process_session env_absent = Returns (PDict [(''status'', PStr ''failed'')])"
  "get_random_published_workflow env_absent = Returns PNone"
  by (simp_all add: env_absent_def)

lemma env_ok_simps:
  "get_random_published_workflow env_ok = Returns published_workflow"
  "stop_audio_recording env_ok = Returns (PDict [(''success'', PBool True)])"
  "start_audio_recording env_ok = Returns (PDict [(''success'', PBool True)])"
  "bridge_client_new env_ok = Returns ()"
  by (simp_all add: env_ok_def)


section \<open>What a statement leaves untouched\<close>

lemma keepsD:
  assumes "keeps g m" and "m s = (r, s1, es)"
  shows "g s1 = g s"
proof -
  from assms(1) have "g (state_of (m s)) = g s"
    unfolding keeps_def by (rule spec)
  then show ?thesis using assms(2) by (simp add: state_of_def)
qed

lemma keeps_ret: "keeps g (ret a)"
  and keeps_raise: "keeps g (raise e)"
  and keeps_lift: "keeps g (lift r)"
  and keeps_reading: "keeps g (reading h)"
  and keeps_effect: "keeps g (effect x)"
  and keeps_logger: "keeps g (logger l txt)"
  and keeps_call: "keeps g (call_ext c out)"
  by (simp_all add: keeps_def prog_defs split: outcome.splits)

lemma keeps_modify: "(\<And>s. g (f s) = g s) \<Longrightarrow> keeps g (modify f)"
  by (simp add: keeps_def prog_defs)

lemma keeps_bnd:
  assumes "keeps g m" and "\<And>a. keeps g (f a)"
  shows "keeps g (bnd m f)"
proof -
  have "g (state_of (bnd m f s)) = g s" for s
  proof (cases "m s")
    case (fields r s1 es)
    note k1 = keepsD [OF assms(1) fields]
    show ?thesis
    proof (cases r)
      case (Inl e)
      then show ?thesis using fields k1 by (simp add: prog_defs)
    next
      case (Inr a)
      obtain r2 s2 es2 where f: "f a s1 = (r2, s2, es2)" by (cases "f a s1") auto
      from keepsD [OF assms(2) f] show ?thesis using fields Inr f k1 by (simp add: prog_defs)
    qed
  qed
  then show ?thesis by (simp add: keeps_def)
qed

lemma keeps_try:
  assumes "keeps g m" and "\<And>e. keeps g (h e)"
  shows "keeps g (try_except m h)"
proof -
  have "g (state_of (try_except m h s)) = g s" for s
  proof (cases "m s")
    case (fields r s1 es)
    note k1 = keepsD [OF assms(1) fields]
    show ?thesis
    proof (cases r)
      case (Inr a)
      then show ?thesis using fields k1 by (simp add: prog_defs)
    next
      case (Inl e)
      obtain r2 s2 es2 where f: "h e s1 = (r2, s2, es2)" by (cases "h e s1") auto
      from keepsD [OF assms(2) f] show ?thesis using fields Inl f k1 by (simp add: prog_defs)
    qed
  qed
  then show ?thesis by (simp add: keeps_def)
qed

lemma keeps_if: "keeps g a \<Longrightarrow> keeps g b \<Longrightarrow> keeps g (if c then a else b)"
  by simp

lemma keeps_block_Nil: "keeps g (block [])"
  by (simp add: block_Nil keeps_ret)

lemma keeps_block_Cons: "keeps g m \<Longrightarrow> keeps g (block ms) \<Longrightarrow> keeps g (block (m # ms))"
  by (simp add: block_Cons keeps_bnd)

lemmas keeps_intros = keeps_ret keeps_raise keeps_lift keeps_reading keeps_effect keeps_logger
  keeps_call keeps_bnd keeps_try keeps_if keeps_block_Nil keeps_block_Cons

lemmas session_setters = set_session_active_def set_session_start_time_def set_session_id_def

lemma start_session_keeps_workflow: "keeps current_workflow (start_session env)"
  unfolding start_session_def session_setters
  by (intro keeps_intros keeps_modify) simp_all

lemma handle_start_keeps_workflow: "keeps current_workflow (handle_start_session env)"
  unfolding handle_start_session_def
  by (intro keeps_intros start_session_keeps_workflow)

lemma api_start_keeps_workflow: "keeps current_workflow (api_start_session env)"
  unfolding api_start_session_def
  by (intro keeps_intros start_session_keeps_workflow)


section \<open>Starting and stopping\<close>

lemma start_session_active:
  "session_active s \<Longrightarrow>
     start_session env s = (Inl (Exn ''ValueError'' ''Session is already active''), s, [])"
  by (simp add: start_session_def prog_defs)

lemma stop_session_idle:
  "\<not> session_active s \<Longrightarrow>
     stop_session env s = (Inl (Exn ''ValueError'' ''No active session to stop''), s, [])"
  by (simp add: stop_session_def prog_defs)

lemmas stop_defs = stop_session_def session_setters start_upload_monitoring_def stop_tail_def
  cleared_def

text \<open>A stop that returns has cleared the session right after starting the thread.\<close>

lemma stop_session_returns:
  assumes "result_of (stop_session env s) = Inr u"
  shows "\<exists>pre. list_all quiet pre \<and> stop_session env s = (Inr (), cleared s, pre @ stop_tail)"
proof (cases "session_active s")
  case False
  then show ?thesis using assms by (simp add: stop_session_idle result_of_def)
next
  case True
  show ?thesis
  proof (cases "command_client s")
    case False
    then have "stop_session env s =
        (Inr (), cleared s, [Log Info ''Stopping session via audio stop command''] @ stop_tail)"
      using True by (simp add: stop_defs prog_defs)
    then show ?thesis by (intro exI [of _ "[Log Info ''Stopping session via audio stop command'']"]) simp
  next
    case client: True
    show ?thesis
    proof (cases "stop_audio_recording env")
      case (Raises e)
      then show ?thesis using assms True client by (simp add: stop_defs prog_defs)
    next
      case (Returns v)
      show ?thesis
      proof (cases v)
        case (PDict kvs)
        show ?thesis
        proof (cases "truthy (case map_of kvs ''success'' of None \<Rightarrow> PBool False | Some x \<Rightarrow> x)")
          case ok: True
          then have "stop_session env s =
              (Inr (), cleared s,
               [Log Info ''Stopping session via audio stop command'',
                Call Stop_audio_recording] @ stop_tail)"
            using True client Returns PDict by (simp add: stop_defs prog_defs)
          then show ?thesis
            by (intro exI [of _ "[Log Info ''Stopping session via audio stop command'',
                Call Stop_audio_recording]"]) simp
        next
          case False
          then have "stop_session env s =
              (Inr (), cleared s,
               [Log Info ''Stopping session via audio stop command'',
                Call Stop_audio_recording,
                Log Warning ''Audio stop command failed: ''] @ stop_tail)"
            using True client Returns PDict by (simp add: stop_defs prog_defs)
          then show ?thesis
            by (intro exI [of _ "[Log Info ''Stopping session via audio stop command'',
                Call Stop_audio_recording, Log Warning ''Audio stop command failed: '']"]) simp
        qed
      qed (use assms True client Returns in \<open>simp_all add: stop_defs prog_defs\<close>)
    qed
  qed
qed

text \<open>A stop that raises has changed nothing and started no thread.\<close>

lemma stop_session_raises:
  assumes "result_of (stop_session env s) = Inl e"
  shows "\<exists>es. list_all quiet es \<and> stop_session env s = (Inl e, s, es)"
proof (cases "session_active s")
  case False
  then show ?thesis using assms by (simp add: stop_session_idle result_of_def)
next
  case True
  show ?thesis
  proof (cases "command_client s")
    case False
    then show ?thesis using assms True by (simp add: stop_defs prog_defs)
  next
    case client: True
    show ?thesis
    proof (cases "stop_audio_recording env")
      case (Raises e')
      then show ?thesis using assms True client by (simp add: stop_defs prog_defs)
    next
      case (Returns v)
      then show ?thesis using assms True client
        by (cases v) (simp_all add: stop_defs prog_defs split: if_splits)
    qed
  qed
qed

lemma handle_stop_idle:
  "\<not> session_active s \<Longrightarrow>
     handle_stop_session env s =
       (Inr (), s, [Emit (Session_error ''No active session to stop'')])"
  by (simp add: handle_stop_session_def prog_defs)

lemma handle_stop_active:
  "session_active s \<Longrightarrow>
     handle_stop_session env s =
       (case stop_session env s of
          (Inr u, s1, es) \<Rightarrow> (Inr (), s1, Emit (Session_stopped (session_id s)) # es)
        | (Inl e, s1, es) \<Rightarrow>
            (Inr (), s1, Emit (Session_stopped (session_id s)) # es
               @ [Log Error ''Error stopping session: '', Emit (Session_error (str_exn e))]))"
  by (simp add: handle_stop_session_def try_except_def bnd_def block_def reading_def effect_def
      ret_def logger_def split: prod.splits sum.splits)

lemma api_stop_idle:
  "\<not> session_active s \<Longrightarrow>
     api_stop_session env s =
       (Inr (Response (Failure_body ''No active session to stop'') 400), s, [])"
  by (simp add: api_stop_session_def prog_defs)

lemma api_stop_active:
  "session_active s \<Longrightarrow>
     api_stop_session env s =
       (case stop_session env s of
          (Inr u, s1, es) \<Rightarrow>
            (Inr (Response (Success_body (session_id s1)
                    ''Session stopped, processing workflow...'') 200), s1, es)
        | (Inl e, s1, es) \<Rightarrow>
            (Inr (Response (Failure_body (str_exn e)) 500), s1,
             es @ [Log Error ''Error stopping session: '']))"
  by (simp add: api_stop_session_def try_except_def bnd_def block_def reading_def effect_def
      ret_def logger_def split: prod.splits sum.splits)

lemma handle_start_active:
  "session_active s \<Longrightarrow>
     handle_start_session env s = (Inr (), s, [Emit (Session_error ''Session is already active'')])"
  by (simp add: handle_start_session_def prog_defs)

lemma api_start_active:
  "session_active s \<Longrightarrow>
     api_start_session env s =
       (Inr (Response (Failure_body ''Session is already active'') 400), s, [])"
  by (simp add: api_start_session_def prog_defs)


section \<open>Histories of a stop request and its thread\<close>

lemma append_in_shuffles: "xs @ ys \<in> shuffles xs ys"
  by (induction xs) (simp_all add: Cons_in_shuffles_leftI)

lemma cycle_schedules_Cons:
  assumes "a \<noteq> Thread_start"
  shows "cycle_schedules (a # c) mon = (#) a ` cycle_schedules c mon"
proof (cases "Thread_start \<in> set c")
  case False
  then show ?thesis using assms by (simp add: cycle_schedules_def)
next
  case True
  then show ?thesis using assms
    by (simp add: cycle_schedules_def Let_def image_image)
qed

lemma cycle_schedules_subset:
  assumes "t \<in> cycle_schedules c mon"
  shows "set t \<subseteq> set c \<union> set mon"
proof (cases "Thread_start \<in> set c")
  case False
  then show ?thesis using assms by (simp add: cycle_schedules_def)
next
  case True
  let ?pre = "takeWhile (\<lambda>e. e \<noteq> Thread_start) c"
  from True assms obtain zs where t: "t = ?pre @ Thread_start # zs"
    and zs: "zs \<in> shuffles (drop (Suc (length ?pre)) c) mon"
    by (auto simp add: cycle_schedules_def Let_def)
  have "set ?pre \<subseteq> set c"
    by (auto dest: set_takeWhileD)
  moreover have "set (drop (Suc (length ?pre)) c) \<subseteq> set c"
    by (rule set_drop_subset)
  moreover note set_shuffles [OF zs]
  ultimately show ?thesis using t True by auto
qed

lemma cycle_schedules_sequential:
  assumes "Thread_start \<in> set c"
  shows "c @ mon \<in> cycle_schedules c mon"
proof -
  let ?pre = "takeWhile (\<lambda>e. e \<noteq> Thread_start) c"
  let ?post = "drop (Suc (length ?pre)) c"
  have "dropWhile (\<lambda>e. e \<noteq> Thread_start) c \<noteq> []"
    using assms by (simp add: dropWhile_eq_Nil_conv)
  moreover have "hd (dropWhile (\<lambda>e. e \<noteq> Thread_start) c) = Thread_start"
    using assms hd_dropWhile [of "\<lambda>e. e \<noteq> Thread_start" c] calculation by auto
  ultimately have "dropWhile (\<lambda>e. e \<noteq> Thread_start) c
      = Thread_start # tl (dropWhile (\<lambda>e. e \<noteq> Thread_start) c)"
    by (cases "dropWhile (\<lambda>e. e \<noteq> Thread_start) c") auto
  moreover have "tl (dropWhile (\<lambda>e. e \<noteq> Thread_start) c) = ?post"
    by (simp add: dropWhile_eq_drop drop_Suc tl_drop)
  ultimately have "dropWhile (\<lambda>e. e \<noteq> Thread_start) c = Thread_start # ?post"
    by simp
  with takeWhile_dropWhile_id [of "\<lambda>e. e \<noteq> Thread_start" c]
  have c: "?pre @ Thread_start # ?post = c"
    by simp
  have "?pre @ Thread_start # (?post @ mon) \<in> cycle_schedules c mon"
    using assms append_in_shuffles [of ?post mon]
    by (simp add: cycle_schedules_def Let_def)
  moreover have "?pre @ Thread_start # (?post @ mon) = (?pre @ Thread_start # ?post) @ mon"
    by simp
  ultimately show ?thesis by (simp only: c)
qed


section \<open>The effects of the pipeline\<close>

lemma snapshots_Nil: "snapshots [] = []"
  by (simp add: snapshots_def)

lemma snapshots_Cons: "snapshots (e # es) = snapshot_of e @ snapshots es"
  by (simp add: snapshots_def)

lemma quiet_snapshots:
  "snapshots (trigger_effects env sid st) = []"
  "snapshots (processing_effects env sid) = []"
  "snapshots (retrieve_effects env) = []"
  by (simp_all add: quiet_effects snapshots_quiet)

lemma monitor_snapshots:
  "snapshots (monitor_effects env sid st old) =
     map running_status [0, 1, 2, 3, 4, 6, 7, 8, 9, 10] @ [final_status]"
  by (cases "retrieved env old")
    (simp_all add: monitor_effects_def step_running_def snapshots_append snapshots_Cons
      snapshots_Nil quiet_snapshots)

lemma quiet_kinds:
  "filter is_stopped (trigger_effects env sid st) = []"
  "filter is_stopped (processing_effects env sid) = []"
  "filter is_stopped (retrieve_effects env) = []"
  "filter is_session_write (trigger_effects env sid st) = []"
  "filter is_session_write (processing_effects env sid) = []"
  "filter is_session_write (retrieve_effects env) = []"
  "Thread_start \<notin> set (trigger_effects env sid st)"
  "Thread_start \<notin> set (processing_effects env sid)"
  "Thread_start \<notin> set (retrieve_effects env)"
  using quiet_filter [OF quiet_effects(1) [of env sid st]]
    quiet_filter [OF quiet_effects(2) [of env sid]]
    quiet_filter [OF quiet_effects(3) [of env]]
  by blast+

lemma monitor_effects_kinds:
  "filter is_stopped (monitor_effects env sid st old) = []"
  "filter is_session_write (monitor_effects env sid st old) = []"
  "Thread_start \<notin> set (monitor_effects env sid st old)"
  by (cases "retrieved env old";
      simp add: monitor_effects_def step_running_def quiet_kinds)+

lemma call_first:
  "\<exists>rest. effects_of (try_except (bnd (call_ext c out) f) h s) = Call c # rest"
proof (cases out)
  case (Raises e)
  obtain r2 s2 es2 where "h e s = (r2, s2, es2)" by (cases "h e s") auto
  then show ?thesis using Raises by (simp add: prog_defs)
next
  case (Returns v)
  obtain r1 s1 es1 where f: "f v s = (r1, s1, es1)" by (cases "f v s") auto
  show ?thesis
  proof (cases r1)
    case (Inr a)
    then show ?thesis using Returns f by (simp add: prog_defs)
  next
    case (Inl e)
    obtain r2 s2 es2 where "h e s1 = (r2, s2, es2)" by (cases "h e s1") auto
    then show ?thesis using Returns f Inl by (simp add: prog_defs)
  qed
qed

lemma retrieve_effects_call:
  "Call (Get_random_published_workflow ''diligent4'') \<in> set (retrieve_effects env)"
proof -
  obtain rest where "retrieve_effects env = Call (Get_random_published_workflow ''diligent4'') # rest"
    unfolding retrieve_effects_def retrieve_workflow_from_firestore_def retrieve_body_def
    using call_first by blast
  then show ?thesis by simp
qed


section \<open>Facts about the concrete servers\<close>

lemma server_active_simps:
  "session_active server_active = True"
  "session_start_time server_active = Some 1000"
  "session_id server_active = Some ''0b0e7d0a-57c1-4b53-9c55-6a1c1f0d2e11''"
  "command_client server_active = True"
  "current_workflow server_active = None"
  by (simp_all add: server_active_def server_init_def)

lemma retrieved_ok: "retrieved env_ok old = Some published_result"
  using retrieve_real [of env_ok _ _ None "server_init\<lparr>current_workflow := old\<rparr>"]
  by (simp add: retrieved_def env_ok_simps published_workflow_def published_result_def
      state_of_def)

lemma stop_ok_active:
  "stop_session env_ok server_active =
     (Inr (), cleared server_active,
      [Log Info ''Stopping session via audio stop command'', Call Stop_audio_recording]
        @ stop_tail)"
  by (simp add: stop_defs prog_defs env_ok_simps server_active_simps)

lemma handle_start_ok_init:
  "handle_start_session env_ok server_init =
     (Inr (), server_active,
      [Log Info ''Starting session via audio start command'', Call Bridge_client_new,
       Call Start_audio_recording, Set_session_active True,
       Set_session_start_time (Some 1000),
       Set_session_id (Some ''0b0e7d0a-57c1-4b53-9c55-6a1c1f0d2e11''),
       Log Info ''Session started successfully with ID: '',
       Emit (Session_started (Some ''0b0e7d0a-57c1-4b53-9c55-6a1c1f0d2e11''))])"
  by (simp add: handle_start_session_def start_session_def session_setters prog_defs
      env_ok_def server_active_def server_init_def)


section \<open>The snapshots of a run\<close>

lemmas label_defs = reported_labels_def plan_labels_def summary_labels_def upload_steps_def
  forge_steps_def

lemma monitor_run_snapshots:
  "snapshots (effects_of (monitor_uploads_and_forge env s)) =
     map running_status [0, 1, 2, 3, 4, 6, 7, 8, 9, 10] @ [final_status]"
  by (simp add: monitor_run effects_of_def monitor_snapshots)

lemma snapshots_append_only:
  "sorted_wrt (\<lambda>u v. prefix (completed_entries u) (steps v) \<and> length (steps u) < length (steps v))
     (map running_status [0, 1, 2, 3, 4, 6, 7, 8, 9, 10] @ [final_status])"
  by (simp add: running_status_def final_status_def completed_entries_def label_defs)

lemma snapshots_prefixes:
  "list_all (\<lambda>u. prefix (completed_labels u) reported_labels)
     (map running_status [0, 1, 2, 3, 4, 6, 7, 8, 9, 10] @ [final_status])"
  by (simp add: running_status_def final_status_def completed_labels_def completed_entries_def
      label_defs)

lemma final_status_labels: "completed_labels final_status = reported_labels"
  by (simp add: final_status_def completed_labels_def completed_entries_def comp_def)

lemma labels_facts:
  "distinct reported_labels"
  "filter (\<lambda>l. l \<notin> set summary_labels) reported_labels = plan_labels"
  "length plan_labels = 10"
  "length reported_labels = 12"
  by (simp_all add: label_defs)


section \<open>Failures of the collaborators\<close>

lemma trigger_failure:
  assumes "generate_trigger_json env = Raises e1 \<or> save_trigger_to_file env = Raises e2"
  shows "Log Error ''Error generating forge trigger: '' \<in> set (trigger_effects env sid st)"
  using assms
  by (cases "generate_trigger_json env")
    (auto simp add: trigger_effects_def execute_forge_trigger_generation_def prog_defs)

lemma processing_failure:
  assumes "process_session env = Raises e"
  shows "Log Error ''Error in forge processing: '' \<in> set (processing_effects env sid)"
  using assms by (simp add: processing_effects_def execute_forge_processing_def prog_defs)

lemma processing_bad_status:
  assumes "process_session env = Returns v"
    and "py_get v ''status'' PNone \<noteq> Inr (PStr ''completed'')"
  shows "Log Error ''Forge processing failed: '' \<in> set (processing_effects env sid)
       \<or> Log Error ''Error in forge processing: '' \<in> set (processing_effects env sid)"
  using assms
  by (cases v) (simp_all add: processing_effects_def execute_forge_processing_def prog_defs)

lemma retrieve_failure:
  assumes "get_random_published_workflow env = Raises e"
  shows "Log Error ''Error retrieving workflow: '' \<in> set (retrieve_effects env)"
  using assms by (simp add: retrieve_effects_def retrieve_raises effects_of_def)

lemma monitor_effects_contains:
  "set (trigger_effects env sid st) \<subseteq> set (monitor_effects env sid st old)"
  "set (processing_effects env sid) \<subseteq> set (monitor_effects env sid st old)"
  "set (retrieve_effects env) \<subseteq> set (monitor_effects env sid st old)"
  by (auto simp add: monitor_effects_def)

lemma step_ten_reported:
  "''Retrieving processed workflow...''
     \<in> set (map current_step (map running_status [0, 1, 2, 3, 4, 6, 7, 8, 9, 10] @ [final_status]))"
  by (simp add: running_status_def label_defs)


section \<open>Stop requests and their histories\<close>

lemma stop_tail_kinds: "filter is_stopped stop_tail = []" "Thread_start \<in> set stop_tail"
  by (simp_all add: stop_tail_def)

lemma stop_session_unstopped: "filter is_stopped (effects_of (stop_session env s)) = []"
proof (cases "result_of (stop_session env s)")
  case (Inl e)
  from stop_session_raises [OF Inl] obtain es
    where "list_all quiet es" and "stop_session env s = (Inl e, s, es)" by blast
  then show ?thesis by (simp add: effects_of_def quiet_filter)
next
  case (Inr u)
  from stop_session_returns [OF Inr] obtain pre
    where "list_all quiet pre" and "stop_session env s = (Inr (), cleared s, pre @ stop_tail)"
    by blast
  then show ?thesis by (simp add: effects_of_def quiet_filter stop_tail_kinds)
qed

lemma handle_stop_effects:
  assumes "session_active s"
  shows "\<exists>c. effects_of (handle_stop_session env s) = Emit (Session_stopped (session_id s)) # c
            \<and> filter is_stopped c = []"
proof (cases "stop_session env s")
  case (fields r s1 es)
  then have es: "filter is_stopped es = []"
    using stop_session_unstopped [of env s] by (simp add: effects_of_def)
  show ?thesis
  proof (cases r)
    case (Inr u)
    then show ?thesis using assms fields es
      by (simp add: handle_stop_active effects_of_def)
  next
    case (Inl e)
    then show ?thesis using assms fields es
      by (simp add: handle_stop_active effects_of_def)
  qed
qed

lemma api_stop_unstopped: "filter is_stopped (effects_of (api_stop_session env s)) = []"
proof (cases "session_active s")
  case False
  then show ?thesis by (simp add: api_stop_idle effects_of_def)
next
  case True
  obtain r s1 es where fields: "stop_session env s = (r, s1, es)"
    by (cases "stop_session env s") auto
  then have "filter is_stopped es = []"
    using stop_session_unstopped [of env s] by (simp add: effects_of_def)
  then show ?thesis using True fields
    by (cases r) (simp_all add: api_stop_active effects_of_def)
qed

lemma unstopped_schedule:
  assumes "t \<in> cycle_schedules c mon"
    and "filter is_stopped c = []" and "filter is_stopped mon = []"
  shows "filter is_stopped t = []"
  using cycle_schedules_subset [OF assms(1)] assms(2,3)
  by (auto simp add: filter_empty_conv)

lemma monitor_unstopped: "filter is_stopped (effects_of (monitor_uploads_and_forge env s)) = []"
  by (simp add: monitor_run effects_of_def monitor_effects_kinds)

lemma monitor_progress:
  "filter is_progress (effects_of (monitor_uploads_and_forge env s)) \<noteq> []"
  by (simp add: monitor_run effects_of_def monitor_effects_def step_running_def)

lemma handle_stop_ok_active:
  "handle_stop_session env_ok server_active =
     (Inr (), cleared server_active,
      Emit (Session_stopped (Some ''0b0e7d0a-57c1-4b53-9c55-6a1c1f0d2e11''))
        # [Log Info ''Stopping session via audio stop command'', Call Stop_audio_recording]
        @ stop_tail)"
  by (simp add: handle_stop_active stop_ok_active server_active_simps)

lemma api_stop_ok_active:
  "api_stop_session env_ok server_active =
     (Inr (Response (Success_body None ''Session stopped, processing workflow...'') 200),
      cleared server_active,
      [Log Info ''Stopping session via audio stop command'', Call Stop_audio_recording]
        @ stop_tail)"
  by (simp add: api_stop_active stop_ok_active server_active_simps cleared_def)

lemma retrieved_cases:
  "(\<forall>old. retrieved env old = old) \<or> (\<exists>w. \<forall>old. retrieved env old = Some w)"
proof (cases "get_random_published_workflow env")
  case (Raises e)
  then show ?thesis by (simp add: retrieved_raises)
next
  case (Returns v)
  show ?thesis
  proof (cases v)
    case (PDict kvs)
    show ?thesis
    proof (cases "map_of kvs ''workflow_data''")
      case None
      then have "retrieved env old = Some fallback_workflow" for old
        using retrieve_absent [of env v None "server_init\<lparr>current_workflow := old\<rparr>"]
          Returns PDict
        by (simp add: retrieved_def state_of_def)
      then show ?thesis by blast
    next
      case (Some info)
      have "kvs \<noteq> []" using Some by auto
      moreover have "''workflow_data'' \<in> fst ` set kvs"
        using Some by (metis map_of_eq_None_iff option.distinct(1))
      ultimately show ?thesis using Returns PDict Some
        by (cases info) (simp_all add: retrieve_defs prog_defs)
    qed
  qed (use Returns in \<open>simp_all add: retrieve_defs prog_defs\<close>)
qed

lemma stop_session_result_idle:
  "result_of (stop_session env s) = Inr u \<Longrightarrow> session_active s"
  by (cases "session_active s") (simp_all add: stop_session_idle result_of_def)

lemma start_session_result_active:
  "result_of (start_session env s) = Inr u \<Longrightarrow> \<not> session_active s"
  by (cases "session_active s") (simp_all add: start_session_active result_of_def)

lemma start_ok_init: "result_of (start_session env_ok server_init) = Inr ()"
  by (simp add: start_session_def session_setters prog_defs env_ok_def server_init_def)

lemma monitor_keeps_session:
  "session_active (state_of (monitor_uploads_and_forge env s)) = session_active s"
  "session_start_time (state_of (monitor_uploads_and_forge env s)) = session_start_time s"
  "session_id (state_of (monitor_uploads_and_forge env s)) = session_id s"
  by (simp_all add: monitor_run state_of_def)

lemma run_cycle_ok:
  "run_cycle env_ok server_init =
     (cleared server_active)\<lparr>upload_status := final_status,
                             current_workflow := Some published_result\<rparr>"
  by (simp add: run_cycle_def handle_start_ok_init handle_stop_ok_active monitor_run
      retrieved_ok state_of_def)

lemma start_after_cycle:
  "state_of (handle_start_session env_ok (run_cycle env_ok server_init)) =
     server_active\<lparr>upload_status := final_status, current_workflow := Some published_result\<rparr>"
proof -
  have "datetime_now env_ok = 1000" and "uuid4 env_ok = ''0b0e7d0a-57c1-4b53-9c55-6a1c1f0d2e11''"
    by (simp_all add: env_ok_def)
  then show ?thesis
    unfolding run_cycle_ok
    by (simp add: handle_start_session_def start_session_def session_setters prog_defs
        env_ok_simps server_active_def server_init_def cleared_def)
qed


section \<open>The claims\<close>

text \<open>
  C1, as amended. When \<open>get_random_published_workflow\<close> returns a falsy value (\<open>None\<close>, an
  empty dict) or a dict without the key \<open>workflow_data\<close>, \<open>current_workflow\<close> becomes the
  fixed fallback, whose source is \<open>fallback\<close> and whose title and guide are non-empty.
  When it returns a dict whose \<open>workflow_data\<close> entry is a dict, \<open>current_workflow\<close> takes
  title, score and guide from that entry and id, url and source from the response, each
  with the default of its \<open>get\<close> when the key is missing; the source defaults to
  \<open>firestore\<close>.
\<close>

theorem C1_retrieval_result:
  "(get_random_published_workflow env = Returns v
      \<and> (\<not> truthy v \<or> (\<exists>kvs. v = PDict kvs \<and> map_of kvs ''workflow_data'' = None))
    \<longrightarrow> current_workflow (state_of (retrieve_workflow_from_firestore env sid s))
          = Some fallback_workflow)
   \<and> source fallback_workflow = PStr ''fallback''
   \<and> title fallback_workflow = PStr ''Sample Workflow''
   \<and> truthy (title fallback_workflow)
   \<and> truthy (guide_markdown fallback_workflow)
   \<and> (get_random_published_workflow env = Returns (PDict kvs)
      \<and> map_of kvs ''workflow_data'' = Some (PDict info)
    \<longrightarrow> current_workflow (state_of (retrieve_workflow_from_firestore env sid s))
          = Some \<lparr> title = (case map_of info ''title'' of
                               None \<Rightarrow> PStr ''Unknown Workflow'' | Some x \<Rightarrow> x),
                   wf_id = (case map_of kvs ''workflow_id'' of
                               None \<Rightarrow> PStr ''unknown'' | Some x \<Rightarrow> x),
                   score = (case map_of info ''productivity_score'' of
                               None \<Rightarrow> PFloat 0 | Some x \<Rightarrow> x),
                   guide_markdown = (case map_of info ''guide_markdown'' of
                               None \<Rightarrow> PStr '''' | Some x \<Rightarrow> x),
                   firestore_url = Some (case map_of kvs ''firestore_url'' of
                               None \<Rightarrow> PStr '''' | Some x \<Rightarrow> x),
                   source = (case map_of kvs ''source'' of
                               None \<Rightarrow> PStr ''firestore'' | Some x \<Rightarrow> x) \<rparr>)"
proof -
  have "current_workflow (state_of (retrieve_workflow_from_firestore env sid s))
          = Some fallback_workflow"
    if "get_random_published_workflow env = Returns v"
      and "\<not> truthy v \<or> (\<exists>kvs. v = PDict kvs \<and> map_of kvs ''workflow_data'' = None)"
    using retrieve_absent [OF that] by (simp add: state_of_def)
  moreover have "source fallback_workflow = PStr ''fallback''"
    and "title fallback_workflow = PStr ''Sample Workflow''"
    and "truthy (title fallback_workflow)" and "truthy (guide_markdown fallback_workflow)"
    by (simp_all add: fallback_workflow_def)
  moreover have "current_workflow (state_of (retrieve_workflow_from_firestore env sid s))
          = Some \<lparr> title = (case map_of info ''title'' of
                               None \<Rightarrow> PStr ''Unknown Workflow'' | Some x \<Rightarrow> x),
                   wf_id = (case map_of kvs ''workflow_id'' of
                               None \<Rightarrow> PStr ''unknown'' | Some x \<Rightarrow> x),
                   score = (case map_of info ''productivity_score'' of
                               None \<Rightarrow> PFloat 0 | Some x \<Rightarrow> x),
                   guide_markdown = (case map_of info ''guide_markdown'' of
                               None \<Rightarrow> PStr '''' | Some x \<Rightarrow> x),
                   firestore_url = Some (case map_of kvs ''firestore_url'' of
                               None \<Rightarrow> PStr '''' | Some x \<Rightarrow> x),
                   source = (case map_of kvs ''source'' of
                               None \<Rightarrow> PStr ''firestore'' | Some x \<Rightarrow> x) \<rparr>"
    if "get_random_published_workflow env = Returns (PDict kvs)"
      and "map_of kvs ''workflow_data'' = Some (PDict info)"
    using retrieve_real [OF that] by (simp add: state_of_def)
  ultimately show ?thesis by blast
qed

theorem C1_retrieval_result_witness:
  "current_workflow (state_of (retrieve_workflow_from_firestore env_absent None server_init))
     = Some fallback_workflow
   \<and> current_workflow (state_of (retrieve_workflow_from_firestore env_ok None server_init))
     = Some published_result"
  using C1_retrieval_result [of env_absent PNone None server_init "[]" "[]"]
    C1_retrieval_result [of env_ok PNone None server_init
      "[(''workflow_id'', PStr ''wf-42''),
        (''workflow_data'', PDict [(''title'', PStr ''Invoice entry''),
                                  (''productivity_score'', PFloat (1 / 2)),
                                  (''guide_markdown'', PStr ''# Invoice entry'')]),
        (''firestore_url'', PStr ''https://firestore.example/wf-42''),
        (''source'', PStr ''firestore'')]"
      "[(''title'', PStr ''Invoice entry''),
        (''productivity_score'', PFloat (1 / 2)),
        (''guide_markdown'', PStr ''# Invoice entry'')]"]
  by (simp add: env_absent_simps env_ok_simps published_workflow_def published_result_def)

text \<open>
  C1 as stated fails where the retrieval raises: on a server that holds no result, the
  slot is still empty after step 10, so no fallback was installed.
\<close>

theorem C1_counterexample:
  "get_random_published_workflow env_failing = Raises (Exn ''TimeoutError'' ''firestore timed out'')
   \<and> current_workflow (state_of (retrieve_workflow_from_firestore env_failing None server_init))
       = None"
  by (simp add: env_failing_simps retrieve_raises state_of_def server_init_def)

text \<open>
  C2, as amended. In every run the completed labels of the last snapshot are the ten
  steps of the plan in their order together with two summary entries,
  \<open>All uploads completed successfully!\<close> after the verify step and
  \<open>Workflow processing completed! Ready to view results.\<close> after the retrieve step:
  twelve labels, none twice. Every snapshot reports a prefix of these twelve as
  completed, and leaving the two summary entries out gives exactly the plan.
\<close>

theorem C2_completed_labels:
  "completed_labels (last (snapshots (effects_of (monitor_uploads_and_forge env s))))
     = reported_labels
   \<and> list_all (\<lambda>u. prefix (completed_labels u) reported_labels)
       (snapshots (effects_of (monitor_uploads_and_forge env s)))
   \<and> distinct reported_labels
   \<and> filter (\<lambda>l. l \<notin> set summary_labels) reported_labels = plan_labels
   \<and> length plan_labels = 10
   \<and> length reported_labels = 12"
  by (simp add: monitor_run_snapshots snapshots_prefixes [simplified] final_status_labels
      labels_facts)

text \<open>
  C2 as stated fails: with every collaborator answering well, the completed labels of the
  last snapshot are not the ten-step plan, and no snapshot of the run reports exactly
  the plan as completed.
\<close>

theorem C2_counterexample:
  "completed_labels (last (snapshots (effects_of (monitor_uploads_and_forge env_ok server_active))))
     \<noteq> plan_labels
   \<and> plan_labels \<notin> set (map completed_labels
         (snapshots (effects_of (monitor_uploads_and_forge env_ok server_active))))"
  by (simp add: monitor_run_snapshots running_status_def final_status_def
      completed_labels_def completed_entries_def label_defs)

text \<open>
  C3, as amended. When \<open>stop_session\<close> arrives over Socket.IO on an active session, every
  history of the request and its thread begins with the one \<open>session_stopped\<close> event and
  holds no second one, so the event precedes every progress snapshot. A stop through
  \<open>POST /api/session/stop\<close> emits no \<open>session_stopped\<close> event at all.
\<close>

theorem C3_stopped_first:
  "session_active s \<longrightarrow>
     (\<forall>t \<in> cycle_schedules (effects_of (handle_stop_session env s))
               (effects_of (monitor_uploads_and_forge env so)).
        \<exists>rest. t = Emit (Session_stopped (session_id s)) # rest \<and> filter is_stopped rest = [])
     \<and> (\<forall>t \<in> cycle_schedules (effects_of (api_stop_session env s))
               (effects_of (monitor_uploads_and_forge env so)).
        filter is_stopped t = [])"
proof (intro impI conjI ballI)
  fix t
  assume active: "session_active s"
    and t: "t \<in> cycle_schedules (effects_of (handle_stop_session env s))
               (effects_of (monitor_uploads_and_forge env so))"
  from handle_stop_effects [OF active] obtain c
    where c: "effects_of (handle_stop_session env s) = Emit (Session_stopped (session_id s)) # c"
      and unstopped: "filter is_stopped c = []" by blast
  from t obtain rest where rest: "t = Emit (Session_stopped (session_id s)) # rest"
    and sched: "rest \<in> cycle_schedules c (effects_of (monitor_uploads_and_forge env so))"
    unfolding c by (auto simp add: cycle_schedules_Cons)
  from unstopped_schedule [OF sched unstopped monitor_unstopped] rest
  show "\<exists>rest. t = Emit (Session_stopped (session_id s)) # rest \<and> filter is_stopped rest = []"
    by blast
next
  fix t
  assume "t \<in> cycle_schedules (effects_of (api_stop_session env s))
               (effects_of (monitor_uploads_and_forge env so))"
  then show "filter is_stopped t = []"
    by (rule unstopped_schedule) (rule api_stop_unstopped monitor_unstopped)+
qed

theorem C3_stopped_first_witness:
  "session_active server_active
   \<and> effects_of (handle_stop_session env_ok server_active)
       @ effects_of (monitor_uploads_and_forge env_ok server_active)
     \<in> cycle_schedules (effects_of (handle_stop_session env_ok server_active))
         (effects_of (monitor_uploads_and_forge env_ok server_active))
   \<and> (\<exists>rest. effects_of (handle_stop_session env_ok server_active)
               @ effects_of (monitor_uploads_and_forge env_ok server_active)
             = Emit (Session_stopped (Some ''0b0e7d0a-57c1-4b53-9c55-6a1c1f0d2e11'')) # rest
           \<and> filter is_stopped rest = [])
   \<and> filter is_progress (effects_of (handle_stop_session env_ok server_active)
         @ effects_of (monitor_uploads_and_forge env_ok server_active)) \<noteq> []"
proof -
  have active: "session_active server_active"
    by (simp add: server_active_simps)
  have "Thread_start \<in> set (effects_of (handle_stop_session env_ok server_active))"
    by (simp add: handle_stop_ok_active effects_of_def stop_tail_def)
  then have "effects_of (handle_stop_session env_ok server_active)
       @ effects_of (monitor_uploads_and_forge env_ok server_active)
     \<in> cycle_schedules (effects_of (handle_stop_session env_ok server_active))
         (effects_of (monitor_uploads_and_forge env_ok server_active))"
    by (rule cycle_schedules_sequential)
  with active C3_stopped_first [of server_active env_ok server_active]
  show ?thesis by (simp add: server_active_simps monitor_progress)
qed

text \<open>
  C3 as stated fails on the HTTP route: the stop succeeds on an active session, and
  neither the request nor its thread emits a \<open>session_stopped\<close> event.
\<close>

theorem C3_counterexample:
  "session_active server_active
   \<and> result_of (api_stop_session env_ok server_active)
       = Inr (Response (Success_body None ''Session stopped, processing workflow...'') 200)
   \<and> filter is_stopped (effects_of (api_stop_session env_ok server_active)
         @ effects_of (monitor_uploads_and_forge env_ok server_active)) = []"
proof -
  have "result_of (api_stop_session env_ok server_active)
       = Inr (Response (Success_body None ''Session stopped, processing workflow...'') 200)"
    by (simp add: api_stop_ok_active result_of_def)
  then show ?thesis
    by (simp add: api_stop_unstopped monitor_unstopped server_active_simps)
qed

text \<open>
  C4, as amended. Whatever the state and the collaborators, a start that succeeds (the
  method returns, the handler emits \<open>session_started\<close>, the route answers 200) found no
  active session, and a stop that succeeds found one. A stop without an active session
  leaves the server as it was and emits no lifecycle or progress event: the method raises
  \<open>ValueError\<close> with no effect at all, the route answers 400 with no effect at all, and
  the Socket.IO handler emits exactly one event, the \<open>session_error\<close> that reports the
  failure.
\<close>

theorem C4_state_guarded:
  "(result_of (start_session env s) = Inr () \<longrightarrow> \<not> session_active s)
   \<and> (Emit (Session_started sid) \<in> set (effects_of (handle_start_session env s))
      \<longrightarrow> \<not> session_active s)
   \<and> (result_of (api_start_session env s) = Inr resp \<and> status_code resp = 200
      \<longrightarrow> \<not> session_active s)
   \<and> (result_of (stop_session env s) = Inr () \<longrightarrow> session_active s)
   \<and> (Emit (Session_stopped sid) \<in> set (effects_of (handle_stop_session env s))
      \<longrightarrow> session_active s)
   \<and> (result_of (api_stop_session env s) = Inr resp \<and> status_code resp = 200
      \<longrightarrow> session_active s)
   \<and> (\<not> session_active s \<longrightarrow>
        stop_session env s = (Inl (Exn ''ValueError'' ''No active session to stop''), s, [])
        \<and> handle_stop_session env s
            = (Inr (), s, [Emit (Session_error ''No active session to stop'')])
        \<and> api_stop_session env s
            = (Inr (Response (Failure_body ''No active session to stop'') 400), s, []))"
proof (intro conjI impI)
  assume "result_of (start_session env s) = Inr ()"
  then show "\<not> session_active s" by (rule start_session_result_active)
next
  assume "Emit (Session_started sid) \<in> set (effects_of (handle_start_session env s))"
  then show "\<not> session_active s"
    by (cases "session_active s") (simp_all add: handle_start_active effects_of_def)
next
  assume "result_of (api_start_session env s) = Inr resp \<and> status_code resp = 200"
  then show "\<not> session_active s"
    by (cases "session_active s") (auto simp add: api_start_active result_of_def)
next
  assume "result_of (stop_session env s) = Inr ()"
  then show "session_active s" by (rule stop_session_result_idle)
next
  assume "Emit (Session_stopped sid) \<in> set (effects_of (handle_stop_session env s))"
  then show "session_active s"
    by (cases "session_active s") (simp_all add: handle_stop_idle effects_of_def)
next
  assume "result_of (api_stop_session env s) = Inr resp \<and> status_code resp = 200"
  then show "session_active s"
    by (cases "session_active s") (auto simp add: api_stop_idle result_of_def)
next
  assume "\<not> session_active s"
  then show "stop_session env s = (Inl (Exn ''ValueError'' ''No active session to stop''), s, [])"
    by (rule stop_session_idle)
next
  assume "\<not> session_active s"
  then show "handle_stop_session env s
            = (Inr (), s, [Emit (Session_error ''No active session to stop'')])"
    by (rule handle_stop_idle)
next
  assume "\<not> session_active s"
  then show "api_stop_session env s
            = (Inr (Response (Failure_body ''No active session to stop'') 400), s, [])"
    by (rule api_stop_idle)
qed

theorem C4_state_guarded_witness:
  "\<not> session_active server_init
   \<and> result_of (start_session env_ok server_init) = Inr ()
   \<and> session_active server_active
   \<and> result_of (stop_session env_ok server_active) = Inr ()
   \<and> stop_session env_ok server_init
       = (Inl (Exn ''ValueError'' ''No active session to stop''), server_init, [])
   \<and> handle_stop_session env_ok server_init
       = (Inr (), server_init, [Emit (Session_error ''No active session to stop'')])
   \<and> api_stop_session env_ok server_init
       = (Inr (Response (Failure_body ''No active session to stop'') 400), server_init, [])"
proof -
  have "result_of (stop_session env_ok server_active) = Inr ()"
    by (simp add: stop_ok_active result_of_def)
  moreover have "\<not> session_active server_init" and "session_active server_active"
    by (simp_all add: server_init_simps server_active_simps)
  moreover note start_ok_init
  moreover from \<open>\<not> session_active server_init\<close>
  have "stop_session env_ok server_init
       = (Inl (Exn ''ValueError'' ''No active session to stop''), server_init, [])
   \<and> handle_stop_session env_ok server_init
       = (Inr (), server_init, [Emit (Session_error ''No active session to stop'')])
   \<and> api_stop_session env_ok server_init
       = (Inr (Response (Failure_body ''No active session to stop'') 400), server_init, [])"
    by (rule C4_state_guarded [of env_ok server_init, THEN conjunct2, THEN conjunct2,
          THEN conjunct2, THEN conjunct2, THEN conjunct2, THEN conjunct2, THEN mp])
  ultimately show ?thesis by simp
qed

text \<open>
  C4 as stated fails where it says that a stop without an active session emits no events:
  on the server as \<open>__init__\<close> leaves it, the Socket.IO handler emits a \<open>session_error\<close>
  event.
\<close>

theorem C4_counterexample:
  "\<not> session_active server_init
   \<and> effects_of (handle_stop_session env_ok server_init)
       = [Emit (Session_error ''No active session to stop'')]
   \<and> effects_of (handle_stop_session env_ok server_init) \<noteq> []"
proof -
  have idle: "\<not> session_active server_init"
    by (simp add: server_init_simps)
  then show ?thesis
    by (simp add: handle_stop_idle [OF idle] effects_of_def)
qed

text \<open>
  C5, as amended. A stop that returns has cleared the session itself: after telling the
  recording agent, \<open>stop_session\<close> starts the thread, resets the three session fields and
  logs, without emitting anything and without waiting for the thread. The pipeline never
  assigns the session fields; its last effect is \<open>upload_complete\<close>, carrying whether a
  result is stored.
\<close>

theorem C5_session_cleared_by_stop:
  "(result_of (stop_session env s) = Inr () \<longrightarrow>
      (\<exists>pre. list_all quiet pre
         \<and> effects_of (stop_session env s)
             = pre @ [Thread_start, Set_session_active False, Set_session_start_time None,
                      Set_session_id None, Log Info ''Session stopped successfully''])
      \<and> state_of (stop_session env s)
          = s\<lparr>session_active := False, session_start_time := None, session_id := None\<rparr>)
   \<and> filter is_session_write (effects_of (monitor_uploads_and_forge env so)) = []
   \<and> session_active (state_of (monitor_uploads_and_forge env so)) = session_active so
   \<and> session_start_time (state_of (monitor_uploads_and_forge env so)) = session_start_time so
   \<and> session_id (state_of (monitor_uploads_and_forge env so)) = session_id so
   \<and> last (effects_of (monitor_uploads_and_forge env so))
       = Broadcast (Upload_complete
           (current_workflow (state_of (monitor_uploads_and_forge env so)) \<noteq> None))"
proof -
  have "(\<exists>pre. list_all quiet pre
         \<and> effects_of (stop_session env s)
             = pre @ [Thread_start, Set_session_active False, Set_session_start_time None,
                      Set_session_id None, Log Info ''Session stopped successfully''])
      \<and> state_of (stop_session env s)
          = s\<lparr>session_active := False, session_start_time := None, session_id := None\<rparr>"
    if "result_of (stop_session env s) = Inr ()"
  proof -
    from stop_session_returns [OF that] obtain pre
      where "list_all quiet pre" and "stop_session env s = (Inr (), cleared s, pre @ stop_tail)"
      by blast
    then show ?thesis
      by (auto simp add: effects_of_def state_of_def stop_tail_def cleared_def)
  qed
  moreover have "filter is_session_write (effects_of (monitor_uploads_and_forge env so)) = []"
    by (simp add: monitor_run effects_of_def monitor_effects_kinds)
  moreover have "last (effects_of (monitor_uploads_and_forge env so))
       = Broadcast (Upload_complete
           (current_workflow (state_of (monitor_uploads_and_forge env so)) \<noteq> None))"
    by (simp add: monitor_run effects_of_def state_of_def last_monitor_effects)
  ultimately show ?thesis
    using monitor_keeps_session [of env so] by blast
qed

theorem C5_session_cleared_by_stop_witness:
  "result_of (stop_session env_ok server_active) = Inr ()
   \<and> state_of (stop_session env_ok server_active)
       = server_active\<lparr>session_active := False, session_start_time := None,
                       session_id := None\<rparr>
   \<and> last (effects_of (monitor_uploads_and_forge env_ok server_active))
       = Broadcast (Upload_complete True)"
proof -
  have "result_of (stop_session env_ok server_active) = Inr ()"
    by (simp add: stop_ok_active result_of_def)
  moreover have "current_workflow (state_of (monitor_uploads_and_forge env_ok server_active))
      = Some published_result"
    by (simp add: monitor_run state_of_def retrieved_ok)
  ultimately show ?thesis
    using C5_session_cleared_by_stop [of env_ok server_active server_active]
    by simp
qed

text \<open>
  C5 as stated fails: in the history where the caller finishes \<open>stop_session\<close> before the
  thread runs, the three session fields are reset before \<open>upload_complete\<close> is emitted.
\<close>

theorem C5_counterexample:
  "effects_of (handle_stop_session env_ok server_active)
       @ effects_of (monitor_uploads_and_forge env_ok server_active)
     \<in> cycle_schedules (effects_of (handle_stop_session env_ok server_active))
         (effects_of (monitor_uploads_and_forge env_ok server_active))
   \<and> occurs_before (Set_session_active False) (Broadcast (Upload_complete True))
       (effects_of (handle_stop_session env_ok server_active)
          @ effects_of (monitor_uploads_and_forge env_ok server_active))
   \<and> occurs_before (Set_session_start_time None) (Broadcast (Upload_complete True))
       (effects_of (handle_stop_session env_ok server_active)
          @ effects_of (monitor_uploads_and_forge env_ok server_active))
   \<and> occurs_before (Set_session_id None) (Broadcast (Upload_complete True))
       (effects_of (handle_stop_session env_ok server_active)
          @ effects_of (monitor_uploads_and_forge env_ok server_active))"
proof -
  let ?c = "effects_of (handle_stop_session env_ok server_active)"
  let ?m = "effects_of (monitor_uploads_and_forge env_ok server_active)"
  let ?b = "Broadcast (Upload_complete True)"
  have c: "?c = Emit (Session_stopped (Some ''0b0e7d0a-57c1-4b53-9c55-6a1c1f0d2e11''))
        # [Log Info ''Stopping session via audio stop command'', Call Stop_audio_recording]
        @ stop_tail"
    by (simp add: handle_stop_ok_active effects_of_def)
  have "Thread_start \<in> set ?c"
    by (simp add: c stop_tail_def)
  then have sched: "?c @ ?m \<in> cycle_schedules ?c ?m"
    by (rule cycle_schedules_sequential)
  have "last ?m = ?b"
    by (simp add: monitor_run effects_of_def last_monitor_effects retrieved_ok)
  moreover have "?m \<noteq> []"
    by (simp add: monitor_run effects_of_def monitor_effects_def)
  ultimately have b: "?b \<in> set (?c @ ?m)"
    using last_in_set [of ?m] by simp
  have "x \<noteq> ?b" if "x \<in> set ?c" for x
    using that unfolding c stop_tail_def by auto
  then have "takeWhile (\<lambda>e. e \<noteq> ?b) (?c @ ?m) = ?c @ takeWhile (\<lambda>e. e \<noteq> ?b) ?m"
    by (rule takeWhile_append2)
  then have sub: "set ?c \<subseteq> set (takeWhile (\<lambda>e. e \<noteq> ?b) (?c @ ?m))"
    by simp
  have "Set_session_active False \<in> set ?c"
    unfolding c stop_tail_def by simp
  then have a1: "Set_session_active False \<in> set (takeWhile (\<lambda>e. e \<noteq> ?b) (?c @ ?m))"
    using sub by (rule rev_subsetD)
  have "Set_session_start_time None \<in> set ?c"
    unfolding c stop_tail_def by simp
  then have a2: "Set_session_start_time None \<in> set (takeWhile (\<lambda>e. e \<noteq> ?b) (?c @ ?m))"
    using sub by (rule rev_subsetD)
  have "Set_session_id None \<in> set ?c"
    unfolding c stop_tail_def by simp
  then have a3: "Set_session_id None \<in> set (takeWhile (\<lambda>e. e \<noteq> ?b) (?c @ ?m))"
    using sub by (rule rev_subsetD)
  from sched b a1 a2 a3 show ?thesis
    unfolding occurs_before_def by (intro conjI)
qed

text \<open>
  C6. In every run the snapshots are append-only: the entries a snapshot shows as
  completed are an initial segment of the steps of every later snapshot, each snapshot
  has more steps than the one before, every snapshot but the last has
  \<open>is_uploading\<close> true, and the last one, which is also the status the server keeps, has
  it false.
\<close>

theorem C6_snapshots_append_only:
  "sorted_wrt (\<lambda>u v. prefix (completed_entries u) (steps v) \<and> length (steps u) < length (steps v))
     (snapshots (effects_of (monitor_uploads_and_forge env s)))
   \<and> snapshots (effects_of (monitor_uploads_and_forge env s)) \<noteq> []
   \<and> list_all is_uploading (butlast (snapshots (effects_of (monitor_uploads_and_forge env s))))
   \<and> \<not> is_uploading (last (snapshots (effects_of (monitor_uploads_and_forge env s))))
   \<and> upload_status (state_of (monitor_uploads_and_forge env s))
       = last (snapshots (effects_of (monitor_uploads_and_forge env s)))"
proof -
  have "list_all is_uploading (map running_status [0, 1, 2, 3, 4, 6, 7, 8, 9, 10])"
    by (simp add: running_status_def)
  moreover have "\<not> is_uploading final_status"
    by (simp add: final_status_def)
  moreover have "upload_status (state_of (monitor_uploads_and_forge env s)) = final_status"
    by (simp add: monitor_run state_of_def)
  ultimately show ?thesis
    using snapshots_append_only by (simp add: monitor_run_snapshots)
qed

text \<open>
  C7. Whatever the three collaborators of the pipeline do, the three real actions and the
  pipeline as a whole return without an exception, step 10 is announced and the retrieval
  is called, the run ends with \<open>is_uploading\<close> false and \<open>upload_complete\<close> as its last
  effect, and every failure leaves an error in the log: a raise of the trigger generator
  or of the file write, a raise of the forge, a forge response whose status is not
  \<open>completed\<close>, a raise of the retrieval.
\<close>

theorem C7_collaborator_failures_isolated:
  "result_of (execute_forge_trigger_generation env sid st s) = Inr ()
   \<and> result_of (execute_forge_processing env sid s) = Inr ()
   \<and> result_of (retrieve_workflow_from_firestore env sid s) = Inr ()
   \<and> result_of (monitor_uploads_and_forge env s) = Inr ()
   \<and> ''Retrieving processed workflow...''
       \<in> set (map current_step (snapshots (effects_of (monitor_uploads_and_forge env s))))
   \<and> Call (Get_random_published_workflow ''diligent4'')
       \<in> set (effects_of (monitor_uploads_and_forge env s))
   \<and> \<not> is_uploading (upload_status (state_of (monitor_uploads_and_forge env s)))
   \<and> last (effects_of (monitor_uploads_and_forge env s))
       = Broadcast (Upload_complete
           (current_workflow (state_of (monitor_uploads_and_forge env s)) \<noteq> None))
   \<and> (generate_trigger_json env = Raises e1 \<or> save_trigger_to_file env = Raises e2
      \<longrightarrow> Log Error ''Error generating forge trigger: ''
            \<in> set (effects_of (monitor_uploads_and_forge env s)))
   \<and> (process_session env = Raises e3
      \<longrightarrow> Log Error ''Error in forge processing: ''
            \<in> set (effects_of (monitor_uploads_and_forge env s)))
   \<and> (process_session env = Returns v \<and> py_get v ''status'' PNone \<noteq> Inr (PStr ''completed'')
      \<longrightarrow> Log Error ''Forge processing failed: ''
            \<in> set (effects_of (monitor_uploads_and_forge env s))
          \<or> Log Error ''Error in forge processing: ''
            \<in> set (effects_of (monitor_uploads_and_forge env s)))
   \<and> (get_random_published_workflow env = Raises e4
      \<longrightarrow> Log Error ''Error retrieving workflow: ''
            \<in> set (effects_of (monitor_uploads_and_forge env s)))"
proof -
  let ?es = "monitor_effects env (session_id s) (session_start_time s) (current_workflow s)"
  have es: "effects_of (monitor_uploads_and_forge env s) = ?es"
    by (simp add: monitor_run effects_of_def)
  have "result_of (execute_forge_trigger_generation env sid st s) = Inr ()"
    and "result_of (execute_forge_processing env sid s) = Inr ()"
    and "result_of (retrieve_workflow_from_firestore env sid s) = Inr ()"
    and "result_of (monitor_uploads_and_forge env s) = Inr ()"
    by (simp_all add: trigger_run processing_run retrieve_run monitor_run result_of_def)
  moreover have "''Retrieving processed workflow...''
       \<in> set (map current_step (snapshots (effects_of (monitor_uploads_and_forge env s))))"
    using step_ten_reported by (simp only: monitor_run_snapshots)
  moreover have "Call (Get_random_published_workflow ''diligent4'') \<in> set ?es"
    using retrieve_effects_call monitor_effects_contains(3) by blast
  moreover have "\<not> is_uploading (upload_status (state_of (monitor_uploads_and_forge env s)))"
    by (simp add: monitor_run state_of_def final_status_def)
  moreover have "last ?es = Broadcast (Upload_complete
           (current_workflow (state_of (monitor_uploads_and_forge env s)) \<noteq> None))"
    by (simp add: last_monitor_effects monitor_run state_of_def)
  moreover have "Log Error ''Error generating forge trigger: '' \<in> set ?es"
    if "generate_trigger_json env = Raises e1 \<or> save_trigger_to_file env = Raises e2"
    using trigger_failure [OF that] monitor_effects_contains(1) by blast
  moreover have "Log Error ''Error in forge processing: '' \<in> set ?es"
    if "process_session env = Raises e3"
    using processing_failure [OF that] monitor_effects_contains(2) by blast
  moreover have "Log Error ''Forge processing failed: '' \<in> set ?es
          \<or> Log Error ''Error in forge processing: '' \<in> set ?es"
    if "process_session env = Returns v" and "py_get v ''status'' PNone \<noteq> Inr (PStr ''completed'')"
    using processing_bad_status [OF that] monitor_effects_contains(2) by blast
  moreover have "Log Error ''Error retrieving workflow: '' \<in> set ?es"
    if "get_random_published_workflow env = Raises e4"
    using retrieve_failure [OF that] monitor_effects_contains(3) by blast
  ultimately show ?thesis unfolding es by blast
qed

theorem C7_collaborator_failures_isolated_witness:
  "result_of (monitor_uploads_and_forge env_failing server_active) = Inr ()
   \<and> Log Error ''Error generating forge trigger: ''
       \<in> set (effects_of (monitor_uploads_and_forge env_failing server_active))
   \<and> Log Error ''Error in forge processing: ''
       \<in> set (effects_of (monitor_uploads_and_forge env_failing server_active))
   \<and> Log Error ''Error retrieving workflow: ''
       \<in> set (effects_of (monitor_uploads_and_forge env_failing server_active))
   \<and> Call (Get_random_published_workflow ''diligent4'')
       \<in> set (effects_of (monitor_uploads_and_forge env_failing server_active))
   \<and> last (effects_of (monitor_uploads_and_forge env_failing server_active))
       = Broadcast (Upload_complete False)
   \<and> (Log Error ''Forge processing failed: ''
         \<in> set (effects_of (monitor_uploads_and_forge env_absent server_active))
       \<or> Log Error ''Error in forge processing: ''
         \<in> set (effects_of (monitor_uploads_and_forge env_absent server_active)))"
proof -
  have "current_workflow (state_of (monitor_uploads_and_forge env_failing server_active)) = None"
    by (simp add: monitor_run state_of_def retrieved_raises env_failing_simps
        server_active_simps)
  then show ?thesis
    using C7_collaborator_failures_isolated
        [where env = env_failing and s = server_active
          and ?e1.0 = "Exn ''OSError'' ''disk full''"
          and ?e3.0 = "Exn ''ConnectionError'' ''forge unreachable''"
          and ?e4.0 = "Exn ''TimeoutError'' ''firestore timed out''"]
      C7_collaborator_failures_isolated
        [where env = env_absent and s = server_active
          and v = "PDict [(''status'', PStr ''failed'')]"]
    by (simp add: env_failing_simps env_absent_simps)
qed

text \<open>
  C8, as amended. Starting a session does not touch the stored result: after
  \<open>start_session\<close>, through the method, the Socket.IO handler or the route,
  \<open>current_workflow\<close> is what it was. The result is only written by the retrieval of step
  10, which either leaves the slot as it is or puts there a value that does not depend on
  the old one: it replaces, it never merges.
\<close>

theorem C8_result_kept_across_start:
  "current_workflow (state_of (start_session env s)) = current_workflow s
   \<and> current_workflow (state_of (handle_start_session env s)) = current_workflow s
   \<and> current_workflow (state_of (api_start_session env s)) = current_workflow s
   \<and> ((\<forall>s'. current_workflow (state_of (retrieve_workflow_from_firestore env sid s'))
              = current_workflow s')
      \<or> (\<exists>w. \<forall>s'. current_workflow (state_of (retrieve_workflow_from_firestore env sid s'))
              = Some w))"
proof -
  have "current_workflow (state_of (start_session env s)) = current_workflow s"
    and "current_workflow (state_of (handle_start_session env s)) = current_workflow s"
    and "current_workflow (state_of (api_start_session env s)) = current_workflow s"
    using start_session_keeps_workflow [of env] handle_start_keeps_workflow [of env]
      api_start_keeps_workflow [of env]
    by (simp_all add: keeps_def)
  moreover have "current_workflow (state_of (retrieve_workflow_from_firestore env sid s'))
      = retrieved env (current_workflow s')" for s'
    by (simp add: retrieve_run state_of_def)
  ultimately show ?thesis
    using retrieved_cases [of env] by auto
qed

text \<open>
  C8 as stated fails: after one whole cycle with every collaborator answering well, a
  newly started session still holds the result of the earlier cycle, and the status
  route reports it.
\<close>

theorem C8_counterexample:
  "session_active (state_of (handle_start_session env_ok (run_cycle env_ok server_init)))
   \<and> current_workflow (state_of (handle_start_session env_ok (run_cycle env_ok server_init)))
       = Some published_result
   \<and> result_of (api_get_status env_ok
         (state_of (handle_start_session env_ok (run_cycle env_ok server_init))))
       = Inr (Response (Status_body True (Some ''0b0e7d0a-57c1-4b53-9c55-6a1c1f0d2e11'')
                          True True) 200)"
proof -
  have bridge: "is_bridge_running env_ok = Returns True"
    by (simp add: env_ok_def)
  show ?thesis
    unfolding start_after_cycle
    by (simp add: api_get_status_def prog_defs bridge server_active_simps)
qed

text \<open>
  C9. When \<open>get_random_published_workflow\<close> raises, \<open>_retrieve_workflow_from_firestore\<close>
  only logs the error: \<open>current_workflow\<close> keeps its prior value, be it \<open>None\<close> or an earlier
  result, through step 10 and to the end of the pipeline, and \<open>upload_complete\<close> reports
  whether that prior value exists.
\<close>

theorem C9_retrieval_raises_keeps_slot:
  "get_random_published_workflow env = Raises e \<longrightarrow>
     retrieve_workflow_from_firestore env sid s
       = (Inr (), s, [Call (Get_random_published_workflow ''diligent4''),
                      Log Error ''Error retrieving workflow: ''])
     \<and> current_workflow (state_of (retrieve_workflow_from_firestore env sid s))
         = current_workflow s
     \<and> current_workflow (state_of (monitor_uploads_and_forge env s)) = current_workflow s
     \<and> last (effects_of (monitor_uploads_and_forge env s))
         = Broadcast (Upload_complete (current_workflow s \<noteq> None))"
  by (simp add: retrieve_raises monitor_run retrieved_raises last_monitor_effects
      state_of_def effects_of_def)

theorem C9_retrieval_raises_keeps_slot_witness:
  "current_workflow (state_of (retrieve_workflow_from_firestore env_failing None server_init))
     = None
   \<and> current_workflow (state_of (retrieve_workflow_from_firestore env_failing None
        (server_init\<lparr>current_workflow := Some published_result\<rparr>)))
     = Some published_result
   \<and> last (effects_of (monitor_uploads_and_forge env_failing server_init))
     = Broadcast (Upload_complete False)"
  using C9_retrieval_raises_keeps_slot
      [of env_failing "Exn ''TimeoutError'' ''firestore timed out''" None server_init]
    C9_retrieval_raises_keeps_slot
      [of env_failing "Exn ''TimeoutError'' ''firestore timed out''" None
        "server_init\<lparr>current_workflow := Some published_result\<rparr>"]
  by (simp add: env_failing_simps server_init_simps state_of_def)

text \<open>
  C10. Whenever \<open>POST /api/session/stop\<close> answers 200, the session was active, the body is
  the success body with \<open>session_id\<close> null, and the server's session id is cleared:
  \<open>stop_session\<close> resets it before the body is built.
\<close>

theorem C10_stop_response_null_id:
  "result_of (api_stop_session env s) = Inr resp \<and> status_code resp = 200 \<longrightarrow>
     session_active s
     \<and> resp = Response (Success_body None ''Session stopped, processing workflow...'') 200
     \<and> session_id (state_of (api_stop_session env s)) = None"
proof (intro impI)
  assume ok: "result_of (api_stop_session env s) = Inr resp \<and> status_code resp = 200"
  have active: "session_active s"
    using ok by (cases "session_active s") (auto simp add: api_stop_idle result_of_def)
  obtain r s1 es where fields: "stop_session env s = (r, s1, es)"
    by (cases "stop_session env s") auto
  show "session_active s
     \<and> resp = Response (Success_body None ''Session stopped, processing workflow...'') 200
     \<and> session_id (state_of (api_stop_session env s)) = None"
  proof (cases r)
    case (Inl e)
    then show ?thesis using ok active fields
      by (auto simp add: api_stop_active result_of_def)
  next
    case (Inr u)
    then have "result_of (stop_session env s) = Inr u"
      using fields by (simp add: result_of_def)
    from stop_session_returns [OF this] fields have "s1 = cleared s"
      by auto
    then show ?thesis using ok active fields Inr
      by (auto simp add: api_stop_active result_of_def state_of_def cleared_def)
  qed
qed

theorem C10_stop_response_null_id_witness:
  "session_id server_active = Some ''0b0e7d0a-57c1-4b53-9c55-6a1c1f0d2e11''
   \<and> result_of (api_stop_session env_ok server_active)
       = Inr (Response (Success_body None ''Session stopped, processing workflow...'') 200)
   \<and> session_id (state_of (api_stop_session env_ok server_active)) = None"
proof -
  have "result_of (api_stop_session env_ok server_active)
       = Inr (Response (Success_body None ''Session stopped, processing workflow...'') 200)"
    by (simp add: api_stop_ok_active result_of_def)
  then show ?thesis
    using C10_stop_response_null_id [of env_ok server_active
        "Response (Success_body None ''Session stopped, processing workflow...'') 200"]
    by (simp add: server_active_simps)
qed

end
